theory Spec2Isabelle
  imports Main
begin

section \<open>JavaScript values\<close>

text \<open>
  Values that the backend's JSON puts into the fields of a medicine record: null, booleans,
  numbers, strings and arrays. Numbers are integers here (only "is it zero" is ever asked
  of a number by the components). A field that is itself an object is not modelled. The
  JavaScript value \<open>undefined\<close> (a missing property) is \<open>None\<close> of \<open>json option\<close>.
  Strings are lists of 8-bit characters. The two string methods that consult the
  browser's Unicode tables, \<open>trim\<close> and \<open>toLowerCase\<close>, are parameters of the definitions
  that call them.
\<close>

datatype json = JNull | JBool bool | JNum int | JStr string | JArr "json list"

text \<open>
  What an HTTP call hands back as \<open>response.data\<close>: a JSON object (its properties as a
  map), or a JSON value that is not an object.
\<close>

datatype response = Obj "string \<Rightarrow> json option" | Val json

text \<open>Property access \<open>r.k\<close> (and \<open>r?.k\<close>); a value that is not an object has none of the
  properties the components read.\<close>

fun field :: "response \<Rightarrow> string \<Rightarrow> json option" where
  "field (Obj m) k = m k"
| "field (Val v) k = None"

text \<open>JavaScript truthiness.\<close>

fun truthy :: "json option \<Rightarrow> bool" where
  "truthy None = False"
| "truthy (Some JNull) = False"
| "truthy (Some (JBool b)) = b"
| "truthy (Some (JNum n)) = (n \<noteq> 0)"
| "truthy (Some (JStr s)) = (s \<noteq> [])"
| "truthy (Some (JArr xs)) = True"

fun truthy_response :: "response option \<Rightarrow> bool" where
  "truthy_response None = False"
| "truthy_response (Some (Obj m)) = True"
| "truthy_response (Some (Val v)) = truthy (Some v)"

text \<open>\<open>a || b\<close>: the first operand when it is truthy, else the second.\<close>

definition js_or :: "json option \<Rightarrow> json option \<Rightarrow> json option" where
  "js_or a b = (if truthy a then a else b)"

text \<open>\<open>v.length > 0\<close>: strings and arrays have a length; for every other value
  \<open>v.length\<close> is \<open>undefined\<close> and the comparison is false.\<close>

fun length_gt_0 :: "json \<Rightarrow> bool" where
  "length_gt_0 (JStr s) = (0 < length s)"
| "length_gt_0 (JArr xs) = (0 < length xs)"
| "length_gt_0 v = False"

text \<open>\<open>v[0]\<close>: the first element of an array, the first character of a string (as a
  string of length one), \<open>undefined\<close> otherwise.\<close>

fun index0 :: "json \<Rightarrow> json option" where
  "index0 (JArr []) = None"
| "index0 (JArr (x # xs)) = Some x"
| "index0 (JStr []) = None"
| "index0 (JStr (c # cs)) = Some (JStr [c])"
| "index0 v = None"

fun isArray :: "json \<Rightarrow> bool" where
  "isArray (JArr xs) = True"
| "isArray v = False"

section \<open>Rendered output\<close>

text \<open>
  The parts of the rendered tree that carry data, in document order. Each constructor is
  one element of the JSX; its argument is the JavaScript value placed as the element's
  child.
\<close>

datatype node =
    Content "json option"
  | Heading "json option"
  | Generic json
  | Manufacturer json
  | Overview json
  | MedicalUses json
  | SideEffects "json list"
  | Warnings json
  | Disclaimer json
  | Stray json
  | Timestamp nat
  | Preview string
  | Button string bool
  | ErrorBox json
  | DebugBox string
  | Video
  | CapturedImage string

text \<open>
  \<open>{v && rest}\<close>: when \<open>v\<close> is falsy the expression's value is \<open>v\<close> itself, and React
  prints a falsy number (and nothing for \<open>null\<close>, \<open>false\<close>, \<open>undefined\<close>, \<open>""\<close>).
\<close>

fun and_then :: "json option \<Rightarrow> (json \<Rightarrow> node list) \<Rightarrow> node list" where
  "and_then None f = []"
| "and_then (Some v) f =
     (if truthy (Some v) then f v else (case v of JNum n \<Rightarrow> [Stray v] | _ \<Rightarrow> []))"

fun is_uses :: "node \<Rightarrow> bool" where
  "is_uses (MedicalUses v) = True"
| "is_uses n = False"

fun is_side_effects :: "node \<Rightarrow> bool" where
  "is_side_effects (SideEffects xs) = True"
| "is_side_effects n = False"

subsection \<open>MessageBubble.jsx\<close>

datatype msg_type = user | ai

record message =
  msg_type :: msg_type
  content :: "json option"
  data :: "response option"
  error :: bool
  timestamp :: nat

text \<open>The structured medicine explanation of an assistant message (MessageBubble.jsx,
  lines 24-87).\<close>

definition MessageBubble_data :: "response \<Rightarrow> node list" where
  "MessageBubble_data d =
     [Heading (field d ''medicine_name'')]
     @ and_then (field d ''generic_name'')
         (\<lambda>v. if v \<noteq> JStr ''N/A'' then [Generic v] else [])
     @ and_then (field d ''manufacturer'')
         (\<lambda>v. if v \<noteq> JStr ''N/A'' then [Manufacturer v] else [])
     @ and_then (field d ''description'') (\<lambda>v. [Overview v])
     @ and_then (field d ''uses'')
         (\<lambda>v. if v \<noteq> JStr ''N/A'' \<and> v \<noteq> JStr ''Information not available''
              then [MedicalUses v] else [])
     @ and_then (field d ''side_effects'')
         (\<lambda>v. if length_gt_0 v \<and> index0 v \<noteq> Some (JStr ''Information not available'')
              then [SideEffects (case v of JArr xs \<Rightarrow> xs | _ \<Rightarrow> [v])] else [])
     @ and_then (field d ''warnings'') (\<lambda>v. [Warnings v])
     @ and_then (field d ''disclaimer'') (\<lambda>v. [Disclaimer v])"

definition MessageBubble :: "message \<Rightarrow> node list" where
  "MessageBubble m =
     (let isUser = (msg_type m = user); isError = error m in
      (if isUser then [Content (content m)] else [])
      @ (if \<not> isUser \<and> \<not> isError then
           (case data m of
              None \<Rightarrow> []
            | Some d \<Rightarrow>
                if truthy_response (Some d) then MessageBubble_data d
                else (case d of Val (JNum n) \<Rightarrow> [Stray (JNum n)] | _ \<Rightarrow> []))
         else [])
      @ (if \<not> isUser \<and> isError then [Content (content m)] else [])
      @ (if \<not> isUser \<and> \<not> isError \<and> \<not> truthy_response (data m)
         then [Content (content m)] else [])
      @ [Timestamp (timestamp m)])"

subsection \<open>The result panel of ImageUploader.jsx and of CameraCapture.jsx\<close>

text \<open>ImageUploader.jsx, lines 87-148: the panel shown for a truthy \<open>result\<close>.\<close>

definition ImageUploader_result :: "response \<Rightarrow> node list" where
  "ImageUploader_result d =
     [Heading (field d ''medicine_name'')]
     @ and_then (field d ''generic_name'')
         (\<lambda>v. if v \<noteq> JStr ''N/A'' then [Generic v] else [])
     @ and_then (field d ''manufacturer'')
         (\<lambda>v. if v \<noteq> JStr ''N/A'' then [Manufacturer v] else [])
     @ and_then (field d ''description'') (\<lambda>v. [Overview v])
     @ and_then (field d ''uses'')
         (\<lambda>v. if v \<noteq> JStr ''N/A'' \<and> v \<noteq> JStr ''Information not available''
              then [MedicalUses v] else [])
     @ and_then (field d ''side_effects'')
         (\<lambda>v. if isArray v \<and> index0 v \<noteq> Some (JStr ''Information not available'')
              then [SideEffects (case v of JArr xs \<Rightarrow> xs | _ \<Rightarrow> [])] else [])
     @ and_then (field d ''warnings'') (\<lambda>v. [Warnings v])
     @ and_then (field d ''disclaimer'') (\<lambda>v. [Disclaimer v])"

text \<open>CameraCapture.jsx, lines 193-254: the same panel, written out again there.\<close>

definition CameraCapture_result :: "response \<Rightarrow> node list" where
  "CameraCapture_result d =
     [Heading (field d ''medicine_name'')]
     @ and_then (field d ''generic_name'')
         (\<lambda>v. if v \<noteq> JStr ''N/A'' then [Generic v] else [])
     @ and_then (field d ''manufacturer'')
         (\<lambda>v. if v \<noteq> JStr ''N/A'' then [Manufacturer v] else [])
     @ and_then (field d ''description'') (\<lambda>v. [Overview v])
     @ and_then (field d ''uses'')
         (\<lambda>v. if v \<noteq> JStr ''N/A'' \<and> v \<noteq> JStr ''Information not available''
              then [MedicalUses v] else [])
     @ and_then (field d ''side_effects'')
         (\<lambda>v. if isArray v \<and> index0 v \<noteq> Some (JStr ''Information not available'')
              then [SideEffects (case v of JArr xs \<Rightarrow> xs | _ \<Rightarrow> [])] else [])
     @ and_then (field d ''warnings'') (\<lambda>v. [Warnings v])
     @ and_then (field d ''disclaimer'') (\<lambda>v. [Disclaimer v])"

text \<open>\<open>{result && (...)}\<close> in both components.\<close>

definition result_panel :: "(response \<Rightarrow> node list) \<Rightarrow> response option \<Rightarrow> node list" where
  "result_panel panel r =
     (case r of
        None \<Rightarrow> []
      | Some d \<Rightarrow>
          if truthy_response (Some d) then panel d
          else (case d of Val (JNum n) \<Rightarrow> [Stray (JNum n)] | _ \<Rightarrow> []))"

section \<open>Strings\<close>

text \<open>
  \<open>String.prototype.trim\<close> and \<open>String.prototype.toLowerCase\<close> are the browser's: the
  handlers below take them as the parameters \<open>trim\<close> and \<open>toLowerCase\<close>, and what is
  proved of a handler holds for whatever the browser's methods do. For evaluating a
  handler on ASCII text there are two stand-ins, which do on a string of ASCII characters
  what the browser's methods do.
\<close>

definition ascii_space :: "char \<Rightarrow> bool" where
  "ascii_space c = ((of_char c :: nat) \<in> {9, 10, 11, 12, 13, 32})"

definition ascii_trim :: "string \<Rightarrow> string" where
  "ascii_trim s = rev (dropWhile ascii_space (rev (dropWhile ascii_space s)))"

definition ascii_lower_char :: "char \<Rightarrow> char" where
  "ascii_lower_char c =
     (let n = (of_char c :: nat) in if 65 \<le> n \<and> n \<le> 90 then char_of (n + 32) else c)"

definition ascii_lower :: "string \<Rightarrow> string" where
  "ascii_lower s = map ascii_lower_char s"

text \<open>\<open>s.includes(sub)\<close>: \<open>sub\<close> occurs in \<open>s\<close> as a contiguous substring.\<close>

fun js_includes :: "string \<Rightarrow> string \<Rightarrow> bool" where
  "js_includes [] sub = (sub = [])"
| "js_includes (c # cs) sub = (take (length sub) (c # cs) = sub \<or> js_includes cs sub)"

section \<open>AutoComplete.jsx\<close>

record autocomplete_state =
  suggestions :: "string list"
  allMedicines :: "string list"
  showSuggestions :: bool

definition AutoComplete_init :: autocomplete_state where
  "AutoComplete_init = \<lparr>suggestions = [], allMedicines = [], showSuggestions = False\<rparr>"

text \<open>
  The first effect (lines 9-19): \<open>getAllMedicines\<close> settles with the \<open>medicines\<close>
  property of the answer (\<open>None\<close> when the answer has none), or it fails and the directory
  stays as it is.
\<close>

datatype fetched = Fetched "string list option" | FetchFailed

fun fetchMedicines :: "fetched \<Rightarrow> autocomplete_state \<Rightarrow> autocomplete_state" where
  "fetchMedicines (Fetched (Some ms)) s = s\<lparr>allMedicines := ms\<rparr>"
| "fetchMedicines (Fetched None) s = s\<lparr>allMedicines := []\<rparr>"
| "fetchMedicines FetchFailed s = s"

text \<open>The second effect (lines 21-32), run for the current \<open>value\<close> prop and directory.\<close>

definition update_suggestions ::
    "(string \<Rightarrow> string) \<Rightarrow> string \<Rightarrow> autocomplete_state \<Rightarrow> autocomplete_state" where
  "update_suggestions toLowerCase v s =
     (if length v > 0
      then (let filtered =
                  take 5 (filter (\<lambda>med. js_includes (toLowerCase med) (toLowerCase v))
                            (allMedicines s))
            in s\<lparr>suggestions := filtered, showSuggestions := (length filtered > 0)\<rparr>)
      else s\<lparr>suggestions := [], showSuggestions := False\<rparr>)"

section \<open>Requests and their outcomes\<close>

text \<open>
  The error object a rejected request is caught with. \<open>err_response\<close> is
  \<open>error.response?.data\<close>: \<open>None\<close> when there was no HTTP response (a transport failure, or
  an exception that is not an HTTP error). \<open>err_message\<close> is \<open>error.message\<close>.
\<close>

record js_error =
  err_response :: "response option"
  err_message :: "json option"

datatype outcome = Resolved response | Rejected js_error

text \<open>\<open>error.response?.data?.k\<close>\<close>

definition err_field :: "js_error \<Rightarrow> string \<Rightarrow> json option" where
  "err_field e k = (case err_response e of None \<Rightarrow> None | Some d \<Rightarrow> field d k)"

text \<open>What a handler asks of its surroundings: a call of the parent's callback, or an
  outbound request.\<close>

datatype effect =
    onFirstMessage
  | queryMedicine string
  | uploadImage string
  | getUserMedia
  | recognition_start
  | onTranscript string

section \<open>ChatBox.jsx\<close>

record chat_state =
  messages :: "message list"
  input :: string
  loading :: bool

definition ChatBox_init :: chat_state where
  "ChatBox_init = \<lparr>messages = [], input = [], loading = False\<rparr>"

text \<open>The effect on \<open>resetTrigger\<close> (lines 20-25).\<close>

definition reset_effect :: "nat \<Rightarrow> chat_state \<Rightarrow> chat_state" where
  "reset_effect resetTrigger s =
     (if resetTrigger \<noteq> 0 then s\<lparr>messages := [], input := []\<rparr> else s)"

text \<open>
  \<open>handleSubmit\<close> up to its \<open>await\<close> (lines 27-47), at clock reading \<open>now\<close>. The function
  object that runs was made by the last render: what it reads (\<open>input\<close>, \<open>loading\<close>,
  \<open>messages.length\<close>) is the state \<open>seen\<close> of that render, while \<open>setMessages\<close> with its
  updater function, \<open>setInput\<close> and \<open>setLoading\<close> act on the state \<open>s\<close> of the component as it
  is now. The result is the new state and what was emitted.
\<close>

definition handleSubmit ::
    "(string \<Rightarrow> string) \<Rightarrow> nat \<Rightarrow> chat_state \<Rightarrow> chat_state \<Rightarrow> chat_state \<times> effect list" where
  "handleSubmit trim now seen s =
     (if trim (input seen) = [] \<or> loading seen then (s, [])
      else
        (let userMessage =
               \<lparr>msg_type = user, content = Some (JStr (input seen)), data = None,
                error = False, timestamp = now\<rparr>
         in (s\<lparr>messages := messages s @ [userMessage], input := [], loading := True\<rparr>,
             (if length (messages seen) = 0 then [onFirstMessage] else [])
             @ [queryMedicine (input seen)])))"

definition aiMessage :: "response \<Rightarrow> nat \<Rightarrow> message" where
  "aiMessage r now =
     \<lparr>msg_type = ai,
      content = js_or (js_or (js_or (field r ''ai_explanation'') (field r ''description''))
                         (field r ''explanation''))
                  (Some (JStr ''No explanation available'')),
      data = Some r, error = False, timestamp = now\<rparr>"

definition errorMessage :: "js_error \<Rightarrow> nat \<Rightarrow> message" where
  "errorMessage e now =
     \<lparr>msg_type = ai,
      content = js_or (js_or (err_field e ''message'') (err_field e ''suggestion''))
                  (Some (JStr (''Sorry, I could not find information about that medicine. ''
                               @ ''Please check the spelling or try another name.''))),
      data = None, error = True, timestamp = now\<rparr>"

text \<open>The exception of reading a property of \<open>null\<close>; it has no \<open>response\<close>.\<close>

definition TypeError :: js_error where
  "TypeError = \<lparr>err_response = None,
                err_message = Some (JStr ''Cannot read properties of null'')\<rparr>"

text \<open>
  \<open>handleSubmit\<close> from the point where the request has settled (lines 47-67). A
  \<open>null\<close> answer makes \<open>response.ai_explanation\<close> throw inside the \<open>try\<close>.
\<close>

definition reply :: "outcome \<Rightarrow> nat \<Rightarrow> message" where
  "reply out now =
     (case out of
        Resolved (Val JNull) \<Rightarrow> errorMessage TypeError now
      | Resolved r \<Rightarrow> aiMessage r now
      | Rejected e \<Rightarrow> errorMessage e now)"

definition handleSubmit_settled :: "outcome \<Rightarrow> nat \<Rightarrow> chat_state \<Rightarrow> chat_state" where
  "handleSubmit_settled out now s =
     s\<lparr>messages := messages s @ [reply out now], loading := False\<rparr>"

definition ChatBox :: "chat_state \<Rightarrow> node list" where
  "ChatBox s = concat (map MessageBubble (messages s))"

subsection \<open>One chat session as a run of events\<close>

text \<open>
  What happens to a mounted \<open>ChatBox\<close>: the change handler of the input runs, the submit
  handler runs, one of the requests under way settles (the \<open>k\<close>-th, in any order the
  network likes) and \<open>handleSubmit\<close> resumes, or React renders. \<open>chat\<close> is the state of
  the component, \<open>closure\<close> the state as of the last render, which is what the submit
  handler reads. \<open>pending\<close> are the queries of the requests under way, \<open>emitted\<close>
  everything the handlers have emitted, \<open>settled\<close> the requests that have settled, with
  their outcomes.
\<close>

datatype chat_event = Change string | Submit nat | Settle nat outcome nat | Render

record chat_session =
  chat :: chat_state
  closure :: chat_state
  pending :: "string list"
  emitted :: "effect list"
  settled :: "(string \<times> outcome) list"

definition session_init :: chat_session where
  "session_init =
     \<lparr>chat = ChatBox_init, closure = ChatBox_init, pending = [], emitted = [], settled = []\<rparr>"

fun queries :: "effect list \<Rightarrow> string list" where
  "queries [] = []"
| "queries (queryMedicine q # es) = q # queries es"
| "queries (e # es) = queries es"

fun step :: "(string \<Rightarrow> string) \<Rightarrow> chat_session \<Rightarrow> chat_event \<Rightarrow> chat_session" where
  "step trim s (Change v) = s\<lparr>chat := (chat s)\<lparr>input := v\<rparr>\<rparr>"
| "step trim s (Submit now) =
     (let (c, effs) = handleSubmit trim now (closure s) (chat s)
      in s\<lparr>chat := c, pending := pending s @ queries effs, emitted := emitted s @ effs\<rparr>)"
| "step trim s (Settle k out now) =
     (if k < length (pending s)
      then s\<lparr>chat := handleSubmit_settled out now (chat s),
             pending := take k (pending s) @ drop (Suc k) (pending s),
             settled := settled s @ [(pending s ! k, out)]\<rparr>
      else s)"
| "step trim s Render = s\<lparr>closure := chat s\<rparr>"

text \<open>
  What the browser and the network do to the component. A change or submit event that
  the browser dispatches is handled on its own, and React renders the updates of its
  handler before the next event is handled; the updates made when a request settles are
  rendered at some later time. (Events that a script dispatches one after the other
  within one task are not of this kind: their handlers all read the same closure.)
\<close>

datatype chat_task = Typed string | Submitted nat | Settled nat outcome nat | Rendered

fun events_of :: "chat_task \<Rightarrow> chat_event list" where
  "events_of (Typed v) = [Change v, Render]"
| "events_of (Submitted now) = [Submit now, Render]"
| "events_of (Settled k out now) = [Settle k out now]"
| "events_of Rendered = [Render]"

definition perform :: "(string \<Rightarrow> string) \<Rightarrow> chat_session \<Rightarrow> chat_task \<Rightarrow> chat_session" where
  "perform trim s t = foldl (step trim) s (events_of t)"

definition run :: "(string \<Rightarrow> string) \<Rightarrow> chat_task list \<Rightarrow> chat_session" where
  "run trim ts = foldl (perform trim) session_init ts"

text \<open>A message without its time stamp.\<close>

definition view :: "message \<Rightarrow> msg_type \<times> json option \<times> response option \<times> bool" where
  "view m = (msg_type m, content m, data m, error m)"

definition user_view :: "string \<Rightarrow> msg_type \<times> json option \<times> response option \<times> bool" where
  "user_view q = (user, Some (JStr q), None, False)"

definition reply_view :: "outcome \<Rightarrow> msg_type \<times> json option \<times> response option \<times> bool" where
  "reply_view out = view (reply out 0)"

text \<open>
  The log that submission order prescribes: each query's user message, then the reply to
  it, then the next query's; the last reply may still be missing.
\<close>

fun weave :: "string list \<Rightarrow> outcome list
    \<Rightarrow> (msg_type \<times> json option \<times> response option \<times> bool) list" where
  "weave [] outs = map reply_view outs"
| "weave (q # qs) [] = user_view q # weave qs []"
| "weave (q # qs) (out # outs) = user_view q # reply_view out # weave qs outs"

text \<open>
  What holds of a session between two tasks: the closure has the current input and lags
  behind only while it shows \<open>loading\<close>; \<open>loading\<close> is set exactly while a request is under
  way; the requests under way are the queries sent and not yet settled, at most one; and
  the message list is the queries sent woven with the outcomes that arrived.
\<close>

definition settled_state :: "chat_session \<Rightarrow> bool" where
  "settled_state s \<longleftrightarrow>
     input (closure s) = input (chat s)
     \<and> (loading (closure s) \<or> closure s = chat s)
     \<and> loading (chat s) = (pending s \<noteq> [])
     \<and> pending s = drop (length (settled s)) (queries (emitted s))
     \<and> length (queries (emitted s)) \<le> Suc (length (settled s))
     \<and> length (settled s) \<le> length (queries (emitted s))
     \<and> map fst (settled s) = take (length (settled s)) (queries (emitted s))
     \<and> map view (messages (chat s)) = weave (queries (emitted s)) (map snd (settled s))"

section \<open>ImageUploader.jsx\<close>

text \<open>A chosen file is named by a string; \<open>preview\<close> holds the object URL made for it.\<close>

record uploader_state =
  selectedFile :: "string option"
  preview :: "string option"
  up_result :: "response option"
  up_loading :: bool
  up_error :: "json option"

definition ImageUploader_init :: uploader_state where
  "ImageUploader_init =
     \<lparr>selectedFile = None, preview = None, up_result = None, up_loading = False,
      up_error = None\<rparr>"

text \<open>
  \<open>handleFileSelect\<close> (lines 11-19). \<open>file\<close> is \<open>e.target.files[0]\<close> (\<open>None\<close> when the
  dialog was closed without a file), \<open>url\<close> what \<open>URL.createObjectURL\<close> returns for it.
\<close>

definition handleFileSelect :: "string option \<Rightarrow> string \<Rightarrow> uploader_state \<Rightarrow> uploader_state" where
  "handleFileSelect file url s =
     (case file of
        None \<Rightarrow> s
      | Some f \<Rightarrow> s\<lparr>selectedFile := Some f, preview := Some url, up_result := None,
                    up_error := None\<rparr>)"

text \<open>\<open>handleUpload\<close> up to its \<open>await\<close> (lines 21-28).\<close>

definition handleUpload :: "uploader_state \<Rightarrow> uploader_state \<times> effect list" where
  "handleUpload s =
     (case selectedFile s of
        None \<Rightarrow> (s, [])
      | Some f \<Rightarrow> (s\<lparr>up_loading := True, up_error := None\<rparr>, [uploadImage f]))"

definition upload_errorMessage :: "js_error \<Rightarrow> json option" where
  "upload_errorMessage err =
     js_or (js_or (js_or (err_field err ''message'') (err_field err ''suggestion''))
              (err_message err))
       (Some (JStr ''Failed to process image. Please try again.''))"

text \<open>\<open>handleUpload\<close> once the request has settled (lines 28-37).\<close>

definition handleUpload_settled :: "outcome \<Rightarrow> uploader_state \<Rightarrow> uploader_state" where
  "handleUpload_settled out s =
     (case out of
        Resolved r \<Rightarrow> s\<lparr>up_result := Some r, up_loading := False\<rparr>
      | Rejected err \<Rightarrow> s\<lparr>up_error := upload_errorMessage err, up_loading := False\<rparr>)"

text \<open>What the component renders (lines 39-151).\<close>

definition ImageUploader :: "uploader_state \<Rightarrow> node list" where
  "ImageUploader s =
     (case preview s of
        None \<Rightarrow> []
      | Some p \<Rightarrow>
          if p \<noteq> [] then
            [Preview p,
             Button (if up_loading s then ''Processing...'' else ''Analyze Image'')
               (up_loading s)]
          else [])
     @ and_then (up_error s) (\<lambda>e. [ErrorBox e])
     @ result_panel ImageUploader_result (up_result s)"

section \<open>CameraCapture.jsx\<close>

text \<open>
  \<open>streamRef\<close> holds the index of a stream in \<open>tracks\<close>; \<open>tracks\<close> has, for every stream
  the device has handed out so far, one flag per media track: still running or stopped.
  \<open>videoRef.current\<close> is set exactly while the video element is rendered, that is while
  \<open>streaming\<close> holds.
\<close>

record camera_state =
  streaming :: bool
  captured :: "string option"
  cam_result :: "response option"
  cam_loading :: bool
  cam_error :: "json option"
  debugInfo :: string
  streamRef :: "nat option"
  tracks :: "bool list list"

definition CameraCapture_init :: camera_state where
  "CameraCapture_init =
     \<lparr>streaming = False, captured = None, cam_result = None, cam_loading = False,
      cam_error = None, debugInfo = [], streamRef = None, tracks = []\<rparr>"

text \<open>\<open>startCamera\<close> up to the request for the device (lines 15-30).\<close>

definition startCamera :: "camera_state \<Rightarrow> camera_state \<times> effect list" where
  "startCamera s =
     (s\<lparr>cam_error := None, debugInfo := ''Requesting camera access...'', streaming := True\<rparr>,
      [getUserMedia])"

text \<open>\<open>startCamera\<close> after the device has granted a stream of \<open>n\<close> tracks (lines 32-48).\<close>

definition startCamera_granted :: "nat \<Rightarrow> camera_state \<Rightarrow> camera_state" where
  "startCamera_granted n s =
     (let s1 = s\<lparr>streamRef := Some (length (tracks s)),
                 tracks := tracks s @ [replicate n True]\<rparr>
      in if streaming s
         then s1\<lparr>debugInfo := ''Video streaming active!''\<rparr>
         else s1\<lparr>debugInfo := ''ERROR: Video element not found!'', streaming := False\<rparr>)"

text \<open>\<open>startCamera\<close> when the request throws (lines 49-54); \<open>msg\<close> is the text of
  \<open>err.message\<close>.\<close>

definition startCamera_failed :: "string \<Rightarrow> camera_state \<Rightarrow> camera_state" where
  "startCamera_failed msg s =
     s\<lparr>cam_error := Some (JStr (''Camera error: '' @ msg)),
       debugInfo := ''Error: '' @ msg, streaming := False\<rparr>"

text \<open>\<open>stopCamera\<close> (lines 57-62).\<close>

definition stopCamera :: "camera_state \<Rightarrow> camera_state" where
  "stopCamera s =
     (case streamRef s of
        None \<Rightarrow> s
      | Some k \<Rightarrow>
          s\<lparr>tracks := (tracks s)[k := map (\<lambda>t. False) (tracks s ! k)], streaming := False\<rparr>)"

text \<open>
  \<open>captureImage\<close> (lines 64-76); \<open>img\<close> is the data URL the canvas returns. Without a
  video element \<open>video.videoWidth\<close> throws.
\<close>

definition captureImage :: "string \<Rightarrow> camera_state \<Rightarrow> js_error + camera_state" where
  "captureImage img s =
     (if \<not> streaming s then Inl TypeError
      else Inr (stopCamera (s\<lparr>captured := Some img\<rparr>)))"

text \<open>\<open>analyzeCapture\<close> up to the upload (lines 78-90).\<close>

definition analyzeCapture :: "camera_state \<Rightarrow> camera_state \<times> effect list" where
  "analyzeCapture s =
     (case captured s of
        None \<Rightarrow> (s, [])
      | Some img \<Rightarrow>
          if img = [] then (s, [])
          else (s\<lparr>cam_loading := True, cam_error := None\<rparr>, [uploadImage img]))"

definition analyze_errorMessage :: "js_error \<Rightarrow> json option" where
  "analyze_errorMessage err =
     js_or (js_or (js_or (err_field err ''message'') (err_field err ''suggestion''))
              (err_message err))
       (Some (JStr ''Failed to analyze image. Please try again.''))"

text \<open>\<open>analyzeCapture\<close> once fetch and upload have settled (lines 90-99).\<close>

definition analyzeCapture_settled :: "outcome \<Rightarrow> camera_state \<Rightarrow> camera_state" where
  "analyzeCapture_settled out s =
     (case out of
        Resolved r \<Rightarrow> s\<lparr>cam_result := Some r, cam_loading := False\<rparr>
      | Rejected err \<Rightarrow> s\<lparr>cam_error := analyze_errorMessage err, cam_loading := False\<rparr>)"

text \<open>\<open>retake\<close> (lines 101-106).\<close>

definition retake :: "camera_state \<Rightarrow> camera_state \<times> effect list" where
  "retake s = startCamera (s\<lparr>captured := None, cam_result := None, cam_error := None\<rparr>)"

text \<open>What the component renders (lines 108-256); button labels without their emoji.\<close>

definition captured_shown :: "camera_state \<Rightarrow> bool" where
  "captured_shown s = (case captured s of None \<Rightarrow> False | Some img \<Rightarrow> img \<noteq> [])"

definition CameraCapture :: "camera_state \<Rightarrow> node list" where
  "CameraCapture s =
     (if \<not> streaming s \<and> \<not> captured_shown s then [Button ''Start Camera'' False] else [])
     @ (if streaming s
        then [Video, Button ''Capture Photo'' False, Button ''Stop'' False] else [])
     @ (case captured s of
          None \<Rightarrow> []
        | Some img \<Rightarrow>
            if img \<noteq> [] then
              [CapturedImage img,
               Button (if cam_loading s then ''Analyzing...'' else ''Analyze'') (cam_loading s),
               Button ''Retake'' False]
            else [])
     @ (if debugInfo s \<noteq> [] then [DebugBox (debugInfo s)] else [])
     @ and_then (cam_error s) (\<lambda>e. [ErrorBox e])
     @ result_panel CameraCapture_result (cam_result s)"

text \<open>The states of the capture path that the claims name.\<close>

definition stream_live :: "camera_state \<Rightarrow> bool" where
  "stream_live s =
     (case streamRef s of
        None \<Rightarrow> False
      | Some k \<Rightarrow> k < length (tracks s) \<and> list_ex (\<lambda>t. t) (tracks s ! k))"

definition released :: "camera_state \<Rightarrow> bool" where
  "released s =
     (case streamRef s of
        None \<Rightarrow> True
      | Some k \<Rightarrow> k < length (tracks s) \<and> list_all (\<lambda>t. \<not> t) (tracks s ! k))"

text \<open>No track of any stream handed out so far is running; and: none but those of the
  stream held in \<open>streamRef\<close>.\<close>

definition no_track_running :: "camera_state \<Rightarrow> bool" where
  "no_track_running s = list_all (list_all (\<lambda>t. \<not> t)) (tracks s)"

definition only_held_running :: "camera_state \<Rightarrow> bool" where
  "only_held_running s =
     (case streamRef s of
        None \<Rightarrow> no_track_running s
      | Some k \<Rightarrow>
          list_all (list_all (\<lambda>t. \<not> t)) (take k (tracks s) @ drop (Suc k) (tracks s)))"

definition Idle :: "camera_state \<Rightarrow> bool" where
  "Idle s = (\<not> streaming s \<and> captured s = None)"

definition Streaming :: "camera_state \<Rightarrow> bool" where
  "Streaming s = (streaming s \<and> captured s = None \<and> stream_live s)"

section \<open>VoiceInput.jsx\<close>

record voice_state =
  listening :: bool
  supported :: bool

definition VoiceInput_init :: voice_state where
  "VoiceInput_init = \<lparr>listening = False, supported = True\<rparr>"

text \<open>\<open>startListening\<close> (lines 7-39); \<open>api\<close> says whether the window has
  \<open>SpeechRecognition\<close> or \<open>webkitSpeechRecognition\<close>.\<close>

definition startListening :: "bool \<Rightarrow> voice_state \<Rightarrow> voice_state \<times> effect list" where
  "startListening api s =
     (if \<not> api then (s\<lparr>supported := False\<rparr>, []) else (s, [recognition_start]))"

text \<open>The callbacks of the recognition object (lines 20-36).\<close>

datatype recognition_event = onstart | onresult string | onerror | onend

fun recognition :: "recognition_event \<Rightarrow> voice_state \<Rightarrow> voice_state \<times> effect list" where
  "recognition onstart s = (s\<lparr>listening := True\<rparr>, [])"
| "recognition (onresult transcript) s = (s\<lparr>listening := False\<rparr>, [onTranscript transcript])"
| "recognition onerror s = (s\<lparr>listening := False\<rparr>, [])"
| "recognition onend s = (s\<lparr>listening := False\<rparr>, [])"

text \<open>What the component renders (lines 41-58): nothing at all once \<open>supported\<close> is
  false; the button is named here by its title.\<close>

definition VoiceInput :: "voice_state \<Rightarrow> node list" where
  "VoiceInput s =
     (if \<not> supported s then []
      else [Button (if listening s then ''Listening...'' else ''Voice input'') (listening s)])"

section \<open>Sidebar and App.jsx\<close>

text \<open>
  An entry of the chat history. Its \<open>id\<close> is a primitive value (a string or a number),
  for which \<open>===\<close> is equality of values; \<open>None\<close> is \<open>undefined\<close>, the id of an entry
  stored without one and the value of a prop that was not passed.
\<close>

record 'id chat_entry =
  chat_id :: "'id option"
  chat_title :: string
  chat_timestamp :: string

datatype tab = chat_tab | image_tab | camera_tab

text \<open>
  The state of the page: that of \<open>App\<close> (\<open>activeTab\<close>, \<open>showHero\<close>, \<open>chatResetTrigger\<close>),
  that of \<open>Sidebar\<close> (\<open>chatHistory\<close>), the item \<open>ai_lth_chat_history\<close> of the browser's
  local storage (the list whose JSON text is stored; \<open>None\<close> when there is no item), and
  the state of the \<open>ChatBox\<close> instance when one is mounted.
\<close>

record 'id page =
  activeTab :: tab
  showHero :: bool
  chatResetTrigger :: nat
  chatHistory :: "'id chat_entry list"
  localStorage :: "'id chat_entry list option"
  chatBox :: "chat_state option"

text \<open>App.jsx, lines 12-20.\<close>

definition handleNewChat :: "'id page \<Rightarrow> 'id page" where
  "handleNewChat p =
     p\<lparr>showHero := True, activeTab := chat_tab, chatResetTrigger := chatResetTrigger p + 1\<rparr>"

definition handleStartChat :: "'id page \<Rightarrow> 'id page" where
  "handleStartChat p = p\<lparr>showHero := False\<rparr>"

text \<open>
  \<open>handleDeleteChat\<close> of the \<open>Sidebar\<close> component (the second component in
  VoiceInput.jsx, lines 80-88), with the props \<open>currentChatId\<close> and \<open>onNewChat\<close> of the
  component.
\<close>

definition handleDeleteChat ::
    "'id option \<Rightarrow> ('id page \<Rightarrow> 'id page) \<Rightarrow> 'id option \<Rightarrow> 'id page \<Rightarrow> 'id page" where
  "handleDeleteChat currentChatId onNewChat chatId p =
     (let p1 = p\<lparr>chatHistory := filter (\<lambda>c. chat_id c \<noteq> chatId) (chatHistory p)\<rparr>
      in if currentChatId = chatId then onNewChat p1 else p1)"

text \<open>The effect of \<open>Sidebar\<close> that runs after a render with a new \<open>chatHistory\<close> array
  (lines 75-78).\<close>

definition save_effect :: "'id page \<Rightarrow> 'id page" where
  "save_effect p = p\<lparr>localStorage := Some (chatHistory p)\<rparr>"

text \<open>
  The render of \<open>App\<close> after a handler (App.jsx, lines 128-134): \<open>ChatBox\<close> is in the
  tree exactly when the hero is hidden and the chat tab is active. An instance that leaves
  the tree loses its state, one that enters it starts from the initial state, and the
  effect on \<open>resetTrigger\<close> runs at mount and whenever the trigger has changed since the
  render before (\<open>old_trigger\<close>).
\<close>

definition rerender :: "nat \<Rightarrow> 'id page \<Rightarrow> 'id page" where
  "rerender old_trigger p =
     p\<lparr>chatBox :=
        (if \<not> showHero p \<and> activeTab p = chat_tab
         then Some (case chatBox p of
                      None \<Rightarrow> reset_effect (chatResetTrigger p) ChatBox_init
                    | Some c \<Rightarrow>
                        if chatResetTrigger p \<noteq> old_trigger
                        then reset_effect (chatResetTrigger p) c else c)
         else None)\<rparr>"

text \<open>A click on an entry's delete button, with the render and the effects that follow.\<close>

definition delete_click ::
    "'id option \<Rightarrow> ('id page \<Rightarrow> 'id page) \<Rightarrow> 'id option \<Rightarrow> 'id page \<Rightarrow> 'id page" where
  "delete_click currentChatId onNewChat chatId p =
     rerender (chatResetTrigger p)
       (save_effect (handleDeleteChat currentChatId onNewChat chatId p))"

text \<open>A click on "Start Chatting", with the render that follows.\<close>

definition start_chat_click :: "'id page \<Rightarrow> 'id page" where
  "start_chat_click p = rerender (chatResetTrigger p) (handleStartChat p)"

text \<open>The message log on the screen.\<close>

definition shown_messages :: "'id page \<Rightarrow> message list" where
  "shown_messages p = (case chatBox p of None \<Rightarrow> [] | Some c \<Rightarrow> messages c)"

text \<open>
  \<open>App\<close> renders \<open><Sidebar onNewChat={handleNewChat} />\<close> (App.jsx, line 25): the prop
  \<open>currentChatId\<close> is not passed, so inside \<open>Sidebar\<close> it is \<open>undefined\<close>.
\<close>

definition App_delete_click :: "'id option \<Rightarrow> 'id page \<Rightarrow> 'id page" where
  "App_delete_click chatId p = delete_click None handleNewChat chatId p"

section \<open>Rendering of the medicine record\<close>

lemma uses_and_then:
  "list_ex is_uses (and_then v f) \<longleftrightarrow> (\<exists>x. v = Some x \<and> truthy v \<and> list_ex is_uses (f x))"
  by (cases v) (auto split: json.splits)

lemma uses_result_panel:
  "list_ex is_uses (result_panel panel r) \<longleftrightarrow>
     (\<exists>d. r = Some d \<and> truthy_response r \<and> list_ex is_uses (panel d))"
  by (cases r) (auto simp: result_panel_def split: response.splits json.splits)

text \<open>
  Which Possible Side Effects section each view renders, by the kind of value in the
  \<open>side_effects\<close> field.
\<close>

lemma no_side_effects_and_then:
  "(\<And>x. filter is_side_effects (f x) = []) \<Longrightarrow> filter is_side_effects (and_then v f) = []"
  by (cases v) (auto split: json.splits)

lemma chat_side_effects_piece:
  "filter is_side_effects
     (and_then v
        (\<lambda>v. if length_gt_0 v \<and> index0 v \<noteq> Some (JStr ''Information not available'')
             then [SideEffects (case v of JArr xs \<Rightarrow> xs | _ \<Rightarrow> [v])] else []))
   = (case v of
        Some (JArr xs) \<Rightarrow>
          if xs = [] \<or> hd xs = JStr ''Information not available'' then []
          else [SideEffects xs]
      | Some (JStr s) \<Rightarrow> if s = [] then [] else [SideEffects [JStr s]]
      | _ \<Rightarrow> [])"
proof (cases v)
  case None
  then show ?thesis by simp
next
  case (Some x)
  show ?thesis
  proof (cases x)
    case (JArr xs)
    with Some show ?thesis by (cases xs) simp_all
  next
    case (JStr s)
    with Some show ?thesis by (cases s) simp_all
  qed (simp_all add: Some)
qed

lemma panel_side_effects_piece:
  "filter is_side_effects
     (and_then v
        (\<lambda>v. if isArray v \<and> index0 v \<noteq> Some (JStr ''Information not available'')
             then [SideEffects (case v of JArr xs \<Rightarrow> xs | _ \<Rightarrow> [])] else []))
   = (case v of
        Some (JArr xs) \<Rightarrow>
          if xs \<noteq> [] \<and> hd xs = JStr ''Information not available'' then []
          else [SideEffects xs]
      | _ \<Rightarrow> [])"
proof (cases v)
  case None
  then show ?thesis by simp
next
  case (Some x)
  show ?thesis
  proof (cases x)
    case (JArr xs)
    with Some show ?thesis by (cases xs) simp_all
  qed (simp_all add: Some)
qed

lemma MessageBubble_side_effects:
  "filter is_side_effects (MessageBubble_data d)
     = (case field d ''side_effects'' of
          Some (JArr xs) \<Rightarrow>
            if xs = [] \<or> hd xs = JStr ''Information not available'' then []
            else [SideEffects xs]
        | Some (JStr s) \<Rightarrow> if s = [] then [] else [SideEffects [JStr s]]
        | _ \<Rightarrow> [])"
  unfolding MessageBubble_data_def filter_append chat_side_effects_piece
  by (simp add: no_side_effects_and_then)

lemma ImageUploader_side_effects:
  "filter is_side_effects (ImageUploader_result d)
     = (case field d ''side_effects'' of
          Some (JArr xs) \<Rightarrow>
            if xs \<noteq> [] \<and> hd xs = JStr ''Information not available'' then []
            else [SideEffects xs]
        | _ \<Rightarrow> [])"
  unfolding ImageUploader_result_def filter_append panel_side_effects_piece
  by (simp add: no_side_effects_and_then)

lemma CameraCapture_side_effects:
  "filter is_side_effects (CameraCapture_result d)
     = (case field d ''side_effects'' of
          Some (JArr xs) \<Rightarrow>
            if xs \<noteq> [] \<and> hd xs = JStr ''Information not available'' then []
            else [SideEffects xs]
        | _ \<Rightarrow> [])"
  unfolding CameraCapture_result_def filter_append panel_side_effects_piece
  by (simp add: no_side_effects_and_then)

text \<open>
  C1. Side effects are claimed to be treated alike in the chat, image-upload and camera
  views: a scalar string shown as a one-element list, an array shown element by element,
  and the section left out for an empty array or one that starts with "Information not
  available". The three views are evaluated here where they part: for an empty array the
  chat view leaves the section out and the other two render it, empty; for a scalar
  string the chat view renders one item and the other two leave the section out; and the
  chat view renders the scalar string "Information not available" as an item.
\<close>

theorem side_effects_views_differ:
  "MessageBubble_data (Obj [''medicine_name'' \<mapsto> JStr ''Panadol'', ''side_effects'' \<mapsto> JArr []])
     = [Heading (Some (JStr ''Panadol''))]
   \<and> ImageUploader_result
        (Obj [''medicine_name'' \<mapsto> JStr ''Panadol'', ''side_effects'' \<mapsto> JArr []])
     = [Heading (Some (JStr ''Panadol'')), SideEffects []]
   \<and> CameraCapture_result
        (Obj [''medicine_name'' \<mapsto> JStr ''Panadol'', ''side_effects'' \<mapsto> JArr []])
     = [Heading (Some (JStr ''Panadol'')), SideEffects []]
   \<and> MessageBubble_data
        (Obj [''medicine_name'' \<mapsto> JStr ''Panadol'', ''side_effects'' \<mapsto> JStr ''Nausea''])
     = [Heading (Some (JStr ''Panadol'')), SideEffects [JStr ''Nausea'']]
   \<and> ImageUploader_result
        (Obj [''medicine_name'' \<mapsto> JStr ''Panadol'', ''side_effects'' \<mapsto> JStr ''Nausea''])
     = [Heading (Some (JStr ''Panadol''))]
   \<and> CameraCapture_result
        (Obj [''medicine_name'' \<mapsto> JStr ''Panadol'', ''side_effects'' \<mapsto> JStr ''Nausea''])
     = [Heading (Some (JStr ''Panadol''))]
   \<and> MessageBubble_data
        (Obj [''medicine_name'' \<mapsto> JStr ''Panadol'',
              ''side_effects'' \<mapsto> JStr ''Information not available''])
     = [Heading (Some (JStr ''Panadol'')), SideEffects [JStr ''Information not available'']]"
  by (simp add: MessageBubble_data_def ImageUploader_result_def CameraCapture_result_def)

text \<open>
  C2. Suppression law for uses: when the \<open>uses\<close> field of a backend payload is the string
  "N/A" or the string "Information not available", none of the three views (a chat
  message carrying the payload, the image-upload result, the camera-scan result) renders
  a Medical Uses section.
\<close>

theorem uses_suppressed:
  assumes "field d ''uses'' = Some (JStr ''N/A'')
           \<or> field d ''uses'' = Some (JStr ''Information not available'')"
  shows "\<not> list_ex is_uses (MessageBubble (m\<lparr>data := Some d\<rparr>))
         \<and> \<not> list_ex is_uses (ImageUploader (s\<lparr>up_result := Some d\<rparr>))
         \<and> \<not> list_ex is_uses (CameraCapture (c\<lparr>cam_result := Some d\<rparr>))"
proof -
  have a: "\<not> list_ex is_uses (MessageBubble_data d)"
    using assms by (auto simp: MessageBubble_data_def uses_and_then)
  have b: "\<not> list_ex is_uses (ImageUploader_result d)"
    using assms by (auto simp: ImageUploader_result_def uses_and_then)
  have c: "\<not> list_ex is_uses (CameraCapture_result d)"
    using assms by (auto simp: CameraCapture_result_def uses_and_then)
  have 1: "\<not> list_ex is_uses (MessageBubble (m\<lparr>data := Some d\<rparr>))"
    using a by (auto simp: MessageBubble_def Let_def split: response.splits json.splits)
  have 2: "\<not> list_ex is_uses (ImageUploader (s\<lparr>up_result := Some d\<rparr>))"
    using b by (auto simp: ImageUploader_def uses_and_then uses_result_panel split: option.splits)
  have 3: "\<not> list_ex is_uses (CameraCapture (c\<lparr>cam_result := Some d\<rparr>))"
    using c by (auto simp: CameraCapture_def uses_and_then uses_result_panel split: option.splits)
  from 1 2 3 show ?thesis by blast
qed

theorem uses_suppressed_witness:
  "field (Obj [''medicine_name'' \<mapsto> JStr ''Panadol'', ''uses'' \<mapsto> JStr ''N/A'',
               ''side_effects'' \<mapsto> JArr [JStr ''Information not available'']]) ''uses''
     = Some (JStr ''N/A'')
   \<and> \<not> list_ex is_uses
        (MessageBubble
          (\<lparr>msg_type = ai, content = Some (JStr ''No explanation available''), data = None,
            error = False, timestamp = 3\<rparr>
           \<lparr>data := Some (Obj [''medicine_name'' \<mapsto> JStr ''Panadol'', ''uses'' \<mapsto> JStr ''N/A'',
               ''side_effects'' \<mapsto> JArr [JStr ''Information not available'']])\<rparr>))
   \<and> \<not> list_ex is_uses
        (ImageUploader
          (ImageUploader_init
           \<lparr>up_result := Some (Obj [''medicine_name'' \<mapsto> JStr ''Panadol'', ''uses'' \<mapsto> JStr ''N/A'',
               ''side_effects'' \<mapsto> JArr [JStr ''Information not available'']])\<rparr>))
   \<and> \<not> list_ex is_uses
        (CameraCapture
          (CameraCapture_init
           \<lparr>cam_result := Some (Obj [''medicine_name'' \<mapsto> JStr ''Panadol'', ''uses'' \<mapsto> JStr ''N/A'',
               ''side_effects'' \<mapsto> JArr [JStr ''Information not available'']])\<rparr>))"
proof -
  have h: "field (Obj [''medicine_name'' \<mapsto> JStr ''Panadol'', ''uses'' \<mapsto> JStr ''N/A'',
               ''side_effects'' \<mapsto> JArr [JStr ''Information not available'']]) ''uses''
     = Some (JStr ''N/A'')" by simp
  then have h': "field (Obj [''medicine_name'' \<mapsto> JStr ''Panadol'', ''uses'' \<mapsto> JStr ''N/A'',
               ''side_effects'' \<mapsto> JArr [JStr ''Information not available'']]) ''uses''
     = Some (JStr ''N/A'')
     \<or> field (Obj [''medicine_name'' \<mapsto> JStr ''Panadol'', ''uses'' \<mapsto> JStr ''N/A'',
               ''side_effects'' \<mapsto> JArr [JStr ''Information not available'']]) ''uses''
     = Some (JStr ''Information not available'')" by (rule disjI1)
  show ?thesis using h uses_suppressed [OF h'] by blast
qed

text \<open>The scenario of the specification: the name is shown, uses and side effects are
  not.\<close>

lemma panadol_scenario:
  "MessageBubble
     \<lparr>msg_type = ai, content = Some (JStr ''No explanation available''),
      data = Some (Obj [''medicine_name'' \<mapsto> JStr ''Panadol'', ''uses'' \<mapsto> JStr ''N/A'',
               ''side_effects'' \<mapsto> JArr [JStr ''Information not available'']]),
      error = False, timestamp = 3\<rparr>
   = [Heading (Some (JStr ''Panadol'')), Timestamp 3]"
  by (simp add: MessageBubble_def MessageBubble_data_def)

section \<open>The chat session\<close>

lemma queries_append: "queries (es @ fs) = queries es @ queries fs"
  by (induction es rule: queries.induct) auto

lemma view_reply: "view (reply out now) = reply_view out"
  by (auto simp: reply_view_def reply_def view_def errorMessage_def aiMessage_def
      split: outcome.splits response.splits json.splits)

lemma weave_snoc_query:
  "length outs = length qs \<Longrightarrow> weave (qs @ [q]) outs = weave qs outs @ [user_view q]"
proof (induction qs arbitrary: outs)
  case Nil
  then show ?case by simp
next
  case (Cons a qs)
  then show ?case by (cases outs) auto
qed

lemma weave_snoc_outcome:
  "length qs = Suc (length outs) \<Longrightarrow> weave qs (outs @ [out]) = weave qs outs @ [reply_view out]"
proof (induction qs arbitrary: outs)
  case Nil
  then show ?case by simp
next
  case (Cons a qs)
  show ?case
  proof (cases outs)
    case Nil
    with Cons.prems show ?thesis by simp
  next
    case (Cons b outs')
    with Cons.prems Cons.IH [of outs'] show ?thesis by simp
  qed
qed

lemma handleSubmit_rejected:
  "trim (input seen) = [] \<or> loading seen \<Longrightarrow> handleSubmit trim now seen c = (c, [])"
  by (simp add: handleSubmit_def)

lemma handleSubmit_accepted:
  assumes "trim (input seen) \<noteq> []" "\<not> loading seen"
  shows "fst (handleSubmit trim now seen c)
           = c\<lparr>messages := messages c
                  @ [\<lparr>msg_type = user, content = Some (JStr (input seen)), data = None,
                      error = False, timestamp = now\<rparr>],
               input := [], loading := True\<rparr>"
    and "snd (handleSubmit trim now seen c)
           = (if length (messages seen) = 0 then [onFirstMessage] else [])
             @ [queryMedicine (input seen)]"
    and "queries (snd (handleSubmit trim now seen c)) = [input seen]"
  using assms by (simp_all add: handleSubmit_def Let_def)

lemma Submit_rejected:
  assumes "trim (input (closure s)) = [] \<or> loading (closure s)"
  shows "step trim s (Submit now) = s"
  using assms by (simp add: handleSubmit_def)

lemma Submit_accepted:
  assumes "trim (input (closure s)) \<noteq> []" "\<not> loading (closure s)"
  shows "step trim s (Submit now)
      = s\<lparr>chat := (chat s)\<lparr>messages := messages (chat s)
                  @ [\<lparr>msg_type = user, content = Some (JStr (input (closure s))), data = None,
                      error = False, timestamp = now\<rparr>],
               input := [], loading := True\<rparr>,
           pending := pending s @ [input (closure s)],
           emitted := emitted s @ (if length (messages (closure s)) = 0 then [onFirstMessage] else [])
             @ [queryMedicine (input (closure s))]\<rparr>"
  using assms by (simp add: handleSubmit_def Let_def)

lemma perform_invariant:
  assumes "settled_state s"
  shows "settled_state (perform trim s t)"
proof -
  from assms have c1: "input (closure s) = input (chat s)"
    and c2: "loading (closure s) \<or> closure s = chat s"
    and l: "loading (chat s) = (pending s \<noteq> [])"
    and p: "pending s = drop (length (settled s)) (queries (emitted s))"
    and b: "length (queries (emitted s)) \<le> Suc (length (settled s))"
    and n: "length (settled s) \<le> length (queries (emitted s))"
    and f: "map fst (settled s) = take (length (settled s)) (queries (emitted s))"
    and w: "map view (messages (chat s)) = weave (queries (emitted s)) (map snd (settled s))"
    by (simp_all add: settled_state_def)
  show ?thesis
  proof (cases t)
    case (Typed v)
    with l p b n f w show ?thesis by (simp add: perform_def settled_state_def)
  next
    case Rendered
    with l p b n f w show ?thesis by (simp add: perform_def settled_state_def)
  next
    case (Submitted now)
    show ?thesis
    proof (cases "trim (input (closure s)) = [] \<or> loading (closure s)")
      case True
      have "perform trim s t = s\<lparr>closure := chat s\<rparr>"
        using Submitted Submit_rejected [where trim = trim and s = s, OF True] by (simp add: perform_def)
      with l p b n f w show ?thesis by (simp add: settled_state_def)
    next
      case False
      then have g: "trim (input (closure s)) \<noteq> []" "\<not> loading (closure s)" by simp_all
      with c2 have eq: "closure s = chat s" by simp
      with g l have pe: "pending s = []" by simp
      with p n have len: "length (settled s) = length (queries (emitted s))" by simp
      then have len': "length (map snd (settled s)) = length (queries (emitted s))" by simp
      have st: "perform trim s t = (step trim s (Submit now))\<lparr>closure := chat (step trim s (Submit now))\<rparr>"
        using Submitted by (simp add: perform_def)
      show ?thesis
        unfolding st Submit_accepted [where trim = trim and s = s, OF g]
        using pe len f w weave_snoc_query [OF len'] eq
        by (simp add: settled_state_def queries_append view_def user_view_def)
    qed
  next
    case (Settled k out now)
    show ?thesis
    proof (cases "k < length (pending s)")
      case False
      with Settled assms show ?thesis by (simp add: perform_def)
    next
      case True
      with p b have len: "length (queries (emitted s)) = Suc (length (settled s))" and k0: "k = 0"
        by auto
      from len have len': "length (queries (emitted s)) = Suc (length (map snd (settled s)))"
        by simp
      from p True k0 have q: "pending s ! k = queries (emitted s) ! length (settled s)"
        by simp
      from p len have one: "length (pending s) = 1" by simp
      then have "pending s \<noteq> []" by auto
      with l c2 have lc: "loading (closure s)" by auto
      have st: "perform trim s t = s\<lparr>chat := handleSubmit_settled out now (chat s),
             pending := take k (pending s) @ drop (Suc k) (pending s),
             settled := settled s @ [(pending s ! k, out)]\<rparr>"
        using Settled True by (simp add: perform_def)
      have tk: "take (Suc (length (settled s))) (queries (emitted s))
          = take (length (settled s)) (queries (emitted s))
            @ [queries (emitted s) ! length (settled s)]"
        by (rule take_Suc_conv_app_nth) (simp add: len)
      show ?thesis
        unfolding st using k0 one len q f w tk weave_snoc_outcome [OF len'] c1 lc
        by (simp add: settled_state_def handleSubmit_settled_def view_reply)
    qed
  qed
qed

lemma run_snoc: "run trim (ts @ [t]) = perform trim (run trim ts) t"
  by (simp add: run_def)

lemma run_invariant: "settled_state (run trim ts)"
proof (induction ts rule: rev_induct)
  case Nil
  show ?case by (simp add: run_def settled_state_def session_init_def ChatBox_init_def)
next
  case (snoc t ts)
  then show ?case by (simp add: run_snoc perform_invariant)
qed

text \<open>
  C4. In one chat session the message list is in submission order. For every run of a
  fresh \<open>ChatBox\<close> (typing, submits, renders, and requests settling in any order the
  network likes), the list is the queries that were sent, in the order sent, woven with
  the outcomes that arrived: the user message of a query, then the assistant or error
  message made from its outcome, then the next query's user message. The \<open>i\<close>-th outcome
  answers the \<open>i\<close>-th query, at most one request is under way, and at most the last query
  is still without its reply. A submit that passes the guard appends the user message
  with the text typed, sends the query with that text, and that request is then the one
  under way; when the request under way settles, the reply made from its outcome is
  appended and recorded against the last query sent.
\<close>

theorem append_order_is_submission_order:
  "map view (messages (chat (run trim ts)))
     = weave (queries (emitted (run trim ts))) (map snd (settled (run trim ts)))
   \<and> map fst (settled (run trim ts))
       = take (length (settled (run trim ts))) (queries (emitted (run trim ts)))
   \<and> length (settled (run trim ts)) \<le> length (queries (emitted (run trim ts)))
   \<and> length (queries (emitted (run trim ts))) \<le> Suc (length (settled (run trim ts)))
   \<and> length (pending (run trim ts)) \<le> 1
   \<and> input (closure (run trim ts)) = input (chat (run trim ts))
   \<and> (trim (input (closure (run trim ts))) \<noteq> [] \<and> \<not> loading (closure (run trim ts)) \<longrightarrow>
        messages (chat (run trim (ts @ [Submitted now])))
          = messages (chat (run trim ts))
            @ [\<lparr>msg_type = user, content = Some (JStr (input (chat (run trim ts)))), data = None,
                error = False, timestamp = now\<rparr>]
        \<and> queries (emitted (run trim (ts @ [Submitted now])))
            = queries (emitted (run trim ts)) @ [input (chat (run trim ts))]
        \<and> pending (run trim (ts @ [Submitted now])) = [input (chat (run trim ts))]
        \<and> settled (run trim (ts @ [Submitted now])) = settled (run trim ts))
   \<and> (k < length (pending (run trim ts)) \<longrightarrow>
        messages (chat (run trim (ts @ [Settled k out now])))
          = messages (chat (run trim ts)) @ [reply out now]
        \<and> settled (run trim (ts @ [Settled k out now]))
            = settled (run trim ts) @ [(last (queries (emitted (run trim ts))), out)]
        \<and> emitted (run trim (ts @ [Settled k out now])) = emitted (run trim ts)
        \<and> pending (run trim (ts @ [Settled k out now])) = [])"
proof -
  let ?s = "run trim ts"
  have inv: "settled_state ?s" by (rule run_invariant)
  then have c1: "input (closure ?s) = input (chat ?s)"
    and c2: "loading (closure ?s) \<or> closure ?s = chat ?s"
    and l: "loading (chat ?s) = (pending ?s \<noteq> [])"
    and p: "pending ?s = drop (length (settled ?s)) (queries (emitted ?s))"
    and b: "length (queries (emitted ?s)) \<le> Suc (length (settled ?s))"
    and n: "length (settled ?s) \<le> length (queries (emitted ?s))"
    and f: "map fst (settled ?s) = take (length (settled ?s)) (queries (emitted ?s))"
    and w: "map view (messages (chat ?s)) = weave (queries (emitted ?s)) (map snd (settled ?s))"
    by (simp_all add: settled_state_def)
  have sub: "messages (chat (run trim (ts @ [Submitted now])))
          = messages (chat ?s)
            @ [\<lparr>msg_type = user, content = Some (JStr (input (chat ?s))), data = None,
                error = False, timestamp = now\<rparr>]
        \<and> queries (emitted (run trim (ts @ [Submitted now])))
            = queries (emitted ?s) @ [input (chat ?s)]
        \<and> pending (run trim (ts @ [Submitted now])) = [input (chat ?s)]
        \<and> settled (run trim (ts @ [Submitted now])) = settled ?s"
    if g: "trim (input (closure ?s)) \<noteq> []" "\<not> loading (closure ?s)"
  proof -
    from g c2 have eq: "closure ?s = chat ?s" by simp
    with g l have pe: "pending ?s = []" by simp
    have pf: "perform trim ?s (Submitted now)
        = (step trim ?s (Submit now))\<lparr>closure := chat (step trim ?s (Submit now))\<rparr>"
      by (simp add: perform_def)
    show ?thesis
      unfolding run_snoc pf Submit_accepted [where trim = trim and s = "run trim ts", OF g]
      using pe c1 by (simp add: queries_append)
  qed
  have set: "messages (chat (run trim (ts @ [Settled k out now])))
          = messages (chat ?s) @ [reply out now]
        \<and> settled (run trim (ts @ [Settled k out now]))
            = settled ?s @ [(last (queries (emitted ?s)), out)]
        \<and> emitted (run trim (ts @ [Settled k out now])) = emitted ?s
        \<and> pending (run trim (ts @ [Settled k out now])) = []"
    if k: "k < length (pending ?s)"
  proof -
    from p b k have len: "length (queries (emitted ?s)) = Suc (length (settled ?s))"
      and k0: "k = 0" by auto
    from p k k0 have "pending ?s ! k = queries (emitted ?s) ! length (settled ?s)" by simp
    also have "\<dots> = last (queries (emitted ?s))"
      using len by (metis diff_Suc_1 last_conv_nth length_0_conv nat.distinct(1))
    finally have q: "pending ?s ! k = last (queries (emitted ?s))" .
    from p len have one: "length (pending ?s) = 1" by simp
    show ?thesis
      unfolding run_snoc perform_def using k k0 q one
      by (simp add: handleSubmit_settled_def)
  qed
  from p b have one: "length (pending ?s) \<le> 1" by simp
  from w f n b one c1 sub set show ?thesis by blast
qed

theorem append_order_is_submission_order_witness:
  "ascii_trim (input (closure (run ascii_trim [Typed ''Panadol'']))) \<noteq> []
   \<and> \<not> loading (closure (run ascii_trim [Typed ''Panadol'']))
   \<and> messages (chat (run ascii_trim ([Typed ''Panadol''] @ [Submitted 1])))
       = [\<lparr>msg_type = user, content = Some (JStr ''Panadol''), data = None, error = False,
           timestamp = 1\<rparr>]
   \<and> pending (run ascii_trim ([Typed ''Panadol''] @ [Submitted 1])) = [''Panadol'']
   \<and> 0 < length (pending (run ascii_trim [Typed ''Panadol'', Submitted 1]))
   \<and> messages (chat (run ascii_trim ([Typed ''Panadol'', Submitted 1]
         @ [Settled 0 (Resolved (Obj [''medicine_name'' \<mapsto> JStr ''Panadol''])) 2])))
       = [\<lparr>msg_type = user, content = Some (JStr ''Panadol''), data = None, error = False,
           timestamp = 1\<rparr>,
          reply (Resolved (Obj [''medicine_name'' \<mapsto> JStr ''Panadol''])) 2]
   \<and> settled (run ascii_trim ([Typed ''Panadol'', Submitted 1]
         @ [Settled 0 (Resolved (Obj [''medicine_name'' \<mapsto> JStr ''Panadol''])) 2]))
       = [(''Panadol'', Resolved (Obj [''medicine_name'' \<mapsto> JStr ''Panadol'']))]"
proof -
  have r1: "run ascii_trim [Typed ''Panadol'']
      = session_init\<lparr>chat := ChatBox_init\<lparr>input := ''Panadol''\<rparr>,
                     closure := ChatBox_init\<lparr>input := ''Panadol''\<rparr>\<rparr>"
    by (simp add: run_def perform_def session_init_def)
  have t: "ascii_trim ''Panadol'' = ''Panadol''"
    by (simp add: ascii_trim_def ascii_space_def)
  have g: "ascii_trim (input (closure (run ascii_trim [Typed ''Panadol'']))) \<noteq> []
      \<and> \<not> loading (closure (run ascii_trim [Typed ''Panadol'']))"
    unfolding r1 by (simp add: t ChatBox_init_def)
  have i: "input (chat (run ascii_trim [Typed ''Panadol''])) = ''Panadol''"
    and m: "messages (chat (run ascii_trim [Typed ''Panadol''])) = []"
    unfolding r1 by (simp_all add: ChatBox_init_def)
  note a = append_order_is_submission_order
    [where trim = ascii_trim and ts = "[Typed ''Panadol'']" and now = 1]
  note a7 = a [THEN conjunct2, THEN conjunct2, THEN conjunct2, THEN conjunct2, THEN conjunct2,
    THEN conjunct2, THEN conjunct1, THEN mp, OF g]
  have r2: "run ascii_trim [Typed ''Panadol'', Submitted 1]
      = run ascii_trim ([Typed ''Panadol''] @ [Submitted 1])" by simp
  have k: "0 < length (pending (run ascii_trim [Typed ''Panadol'', Submitted 1]))"
    unfolding r2 using a7 by simp
  note b = append_order_is_submission_order
    [where trim = ascii_trim and ts = "[Typed ''Panadol'', Submitted 1]" and k = 0
       and out = "Resolved (Obj [''medicine_name'' \<mapsto> JStr ''Panadol''])" and now = 2]
  note b8 = b [THEN conjunct2, THEN conjunct2, THEN conjunct2, THEN conjunct2, THEN conjunct2,
    THEN conjunct2, THEN conjunct2, THEN mp, OF k]
  have q: "queries (emitted (run ascii_trim [Typed ''Panadol'', Submitted 1])) = [''Panadol'']"
    unfolding r2 using a7 by (simp add: r1 session_init_def i)
  have m2: "messages (chat (run ascii_trim [Typed ''Panadol'', Submitted 1]))
       = [\<lparr>msg_type = user, content = Some (JStr ''Panadol''), data = None, error = False,
           timestamp = 1\<rparr>]"
    unfolding r2 using a7 by (simp add: i m)
  have s2: "settled (run ascii_trim [Typed ''Panadol'', Submitted 1]) = []"
    unfolding r2 using a7 by (simp add: r1 session_init_def)
  have s1: "settled (run ascii_trim [Typed ''Panadol'']) = []"
    unfolding r1 by (simp add: session_init_def)
  from g a7 k b8 show ?thesis by (simp add: i m q m2 s1)
qed

text \<open>
  C5. Submission guard: when the input that the handler reads is empty or only white
  space (\<open>trim\<close> of it is empty), or \<open>loading\<close> is set there, \<open>handleSubmit\<close> changes nothing
  and emits nothing. In every state that a run reaches this is so whenever the current
  input is blank, \<open>loading\<close> is set or a request is under way: the submit leaves the state
  of the component, the requests under way and what has been sent as they were.
\<close>

theorem submit_guard:
  "(trim (input (closure s)) = [] \<or> loading (closure s) \<longrightarrow>
      handleSubmit trim now (closure s) (chat s) = (chat s, [])
      \<and> step trim s (Submit now) = s
      \<and> messages (chat (step trim s (Submit now))) = messages (chat s)
      \<and> pending (step trim s (Submit now)) = pending s)
   \<and> (trim (input (chat (run trim ts))) = [] \<or> loading (chat (run trim ts))
        \<or> pending (run trim ts) \<noteq> [] \<longrightarrow>
      handleSubmit trim now (closure (run trim ts)) (chat (run trim ts))
        = (chat (run trim ts), [])
      \<and> step trim (run trim ts) (Submit now) = run trim ts
      \<and> chat (run trim (ts @ [Submitted now])) = chat (run trim ts)
      \<and> pending (run trim (ts @ [Submitted now])) = pending (run trim ts)
      \<and> emitted (run trim (ts @ [Submitted now])) = emitted (run trim ts))"
proof -
  have 1: "handleSubmit trim now (closure s) (chat s) = (chat s, [])
      \<and> step trim s (Submit now) = s
      \<and> messages (chat (step trim s (Submit now))) = messages (chat s)
      \<and> pending (step trim s (Submit now)) = pending s"
    if g: "trim (input (closure s)) = [] \<or> loading (closure s)" for s
    using Submit_rejected [where trim = trim and s = s, OF g] g
    by (simp add: handleSubmit_def)
  let ?r = "run trim ts"
  have inv: "settled_state ?r" by (rule run_invariant)
  then have c1: "input (closure ?r) = input (chat ?r)"
    and c2: "loading (closure ?r) \<or> closure ?r = chat ?r"
    and l: "loading (chat ?r) = (pending ?r \<noteq> [])"
    by (simp_all add: settled_state_def)
  have 2: "handleSubmit trim now (closure ?r) (chat ?r) = (chat ?r, [])
      \<and> step trim ?r (Submit now) = ?r
      \<and> chat (run trim (ts @ [Submitted now])) = chat ?r
      \<and> pending (run trim (ts @ [Submitted now])) = pending ?r
      \<and> emitted (run trim (ts @ [Submitted now])) = emitted ?r"
    if h: "trim (input (chat ?r)) = [] \<or> loading (chat ?r) \<or> pending ?r \<noteq> []"
  proof -
    from h c1 c2 l have g: "trim (input (closure ?r)) = [] \<or> loading (closure ?r)"
      by auto
    have pf: "perform trim ?r (Submitted now)
        = (step trim ?r (Submit now))\<lparr>closure := chat (step trim ?r (Submit now))\<rparr>"
      by (simp add: perform_def)
    from 1 [OF g] have st: "step trim ?r (Submit now) = ?r"
      and hs: "handleSubmit trim now (closure ?r) (chat ?r) = (chat ?r, [])" by simp_all
    show ?thesis
      unfolding run_snoc pf st using hs st by simp
  qed
  from 1 2 show ?thesis by blast
qed

theorem submit_guard_witness:
  "(ascii_trim (input (closure (session_init
        \<lparr>chat := ChatBox_init\<lparr>input := [CHR '' '', CHR 0x09, CHR '' '']\<rparr>,
         closure := ChatBox_init\<lparr>input := [CHR '' '', CHR 0x09, CHR '' '']\<rparr>\<rparr>))) = []
    \<or> loading (closure (session_init
        \<lparr>chat := ChatBox_init\<lparr>input := [CHR '' '', CHR 0x09, CHR '' '']\<rparr>,
         closure := ChatBox_init\<lparr>input := [CHR '' '', CHR 0x09, CHR '' '']\<rparr>\<rparr>)))
   \<and> step ascii_trim (session_init
        \<lparr>chat := ChatBox_init\<lparr>input := [CHR '' '', CHR 0x09, CHR '' '']\<rparr>,
         closure := ChatBox_init\<lparr>input := [CHR '' '', CHR 0x09, CHR '' '']\<rparr>\<rparr>) (Submit 5)
       = session_init
        \<lparr>chat := ChatBox_init\<lparr>input := [CHR '' '', CHR 0x09, CHR '' '']\<rparr>,
         closure := ChatBox_init\<lparr>input := [CHR '' '', CHR 0x09, CHR '' '']\<rparr>\<rparr>
   \<and> (ascii_trim (input (chat (run ascii_trim [Typed ''Panadol'', Submitted 5]))) = []
      \<or> loading (chat (run ascii_trim [Typed ''Panadol'', Submitted 5]))
      \<or> pending (run ascii_trim [Typed ''Panadol'', Submitted 5]) \<noteq> [])
   \<and> step ascii_trim (run ascii_trim [Typed ''Panadol'', Submitted 5]) (Submit 6)
       = run ascii_trim [Typed ''Panadol'', Submitted 5]
   \<and> chat (run ascii_trim ([Typed ''Panadol'', Submitted 5] @ [Submitted 6]))
       = chat (run ascii_trim [Typed ''Panadol'', Submitted 5])"
proof -
  have a: "ascii_trim (input (closure (session_init
        \<lparr>chat := ChatBox_init\<lparr>input := [CHR '' '', CHR 0x09, CHR '' '']\<rparr>,
         closure := ChatBox_init\<lparr>input := [CHR '' '', CHR 0x09, CHR '' '']\<rparr>\<rparr>))) = []
    \<or> loading (closure (session_init
        \<lparr>chat := ChatBox_init\<lparr>input := [CHR '' '', CHR 0x09, CHR '' '']\<rparr>,
         closure := ChatBox_init\<lparr>input := [CHR '' '', CHR 0x09, CHR '' '']\<rparr>\<rparr>))"
    by (simp add: ascii_trim_def ascii_space_def)
  have t: "ascii_trim ''Panadol'' = ''Panadol''"
    by (simp add: ascii_trim_def ascii_space_def)
  have b: "ascii_trim (input (chat (run ascii_trim [Typed ''Panadol'', Submitted 5]))) = []
      \<or> loading (chat (run ascii_trim [Typed ''Panadol'', Submitted 5]))
      \<or> pending (run ascii_trim [Typed ''Panadol'', Submitted 5]) \<noteq> []"
    by (simp add: run_def perform_def session_init_def ChatBox_init_def handleSubmit_def t)
  note x = submit_guard [where trim = ascii_trim and now = 5 and s = "session_init
        \<lparr>chat := ChatBox_init\<lparr>input := [CHR '' '', CHR 0x09, CHR '' '']\<rparr>,
         closure := ChatBox_init\<lparr>input := [CHR '' '', CHR 0x09, CHR '' '']\<rparr>\<rparr>",
      THEN conjunct1, THEN mp, OF a]
  note y = submit_guard [where trim = ascii_trim and now = 6
      and ts = "[Typed ''Panadol'', Submitted 5]", THEN conjunct2, THEN mp, OF b]
  from a b x y show ?thesis by blast
qed

section \<open>Suggestions\<close>

lemma js_includes_iff: "js_includes s sub \<longleftrightarrow> (\<exists>us vs. s = us @ sub @ vs)"
proof (induction s)
  case Nil
  then show ?case by auto
next
  case (Cons c cs)
  have "take (length sub) (c # cs) = sub \<longleftrightarrow> (\<exists>vs. c # cs = sub @ vs)"
    by (metis append_eq_conv_conj append_take_drop_id)
  moreover have "(\<exists>us vs. c # cs = us @ sub @ vs)
      \<longleftrightarrow> (\<exists>vs. c # cs = sub @ vs) \<or> (\<exists>us vs. cs = us @ sub @ vs)"
  proof
    assume "\<exists>us vs. c # cs = us @ sub @ vs"
    then obtain us vs where e: "c # cs = us @ sub @ vs" by blast
    show "(\<exists>vs. c # cs = sub @ vs) \<or> (\<exists>us vs. cs = us @ sub @ vs)"
    proof (cases us)
      case Nil
      with e show ?thesis by auto
    next
      case (Cons u us')
      with e have "cs = us' @ sub @ vs" by simp
      then show ?thesis by blast
    qed
  next
    assume "(\<exists>vs. c # cs = sub @ vs) \<or> (\<exists>us vs. cs = us @ sub @ vs)"
    then show "\<exists>us vs. c # cs = us @ sub @ vs"
    proof
      assume "\<exists>vs. c # cs = sub @ vs"
      then obtain vs where "c # cs = [] @ sub @ vs" by auto
      then show ?thesis by blast
    next
      assume "\<exists>us vs. cs = us @ sub @ vs"
      then obtain us vs where "c # cs = (c # us) @ sub @ vs" by auto
      then show ?thesis by blast
    qed
  qed
  ultimately show ?case using Cons.IH by simp
qed

text \<open>
  C6. Suggestion engine: for the empty query the suggestion list is empty; for a
  non-empty query \<open>v\<close> and any cached directory, the list has at most 5 elements, each of
  them is a name of the directory, and each contains \<open>v\<close> as a substring once
  \<open>toLowerCase\<close> has been applied to both, whatever \<open>toLowerCase\<close> does.
\<close>

theorem suggestions_bounded:
  "suggestions (update_suggestions toLowerCase [] s) = []
   \<and> (v \<noteq> [] \<longrightarrow>
        length (suggestions (update_suggestions toLowerCase v s)) \<le> 5
        \<and> (\<forall>m \<in> set (suggestions (update_suggestions toLowerCase v s)).
              m \<in> set (allMedicines s)
              \<and> js_includes (toLowerCase m) (toLowerCase v)
              \<and> (\<exists>us vs. toLowerCase m = us @ toLowerCase v @ vs)))"
proof -
  have 1: "suggestions (update_suggestions toLowerCase [] s) = []"
    by (simp add: update_suggestions_def)
  have 2: "length (suggestions (update_suggestions toLowerCase v s)) \<le> 5"
    by (simp add: update_suggestions_def Let_def)
  have 3: "m \<in> set (allMedicines s) \<and> js_includes (toLowerCase m) (toLowerCase v)"
    if "v \<noteq> []" "m \<in> set (suggestions (update_suggestions toLowerCase v s))" for m
  proof -
    from that have "m \<in> set (take 5 (filter (\<lambda>med. js_includes (toLowerCase med) (toLowerCase v))
                            (allMedicines s)))"
      by (simp add: update_suggestions_def Let_def)
    then have "m \<in> set (filter (\<lambda>med. js_includes (toLowerCase med) (toLowerCase v))
                            (allMedicines s))"
      by (rule in_set_takeD)
    then show ?thesis by simp
  qed
  show ?thesis using 1 2 3 js_includes_iff by blast
qed

theorem suggestions_bounded_witness:
  "''pAn'' \<noteq> []
   \<and> suggestions (update_suggestions ascii_lower ''pAn''
        (AutoComplete_init\<lparr>allMedicines := [''Panadol'', ''Brufen'', ''Panadol Extra'', ''Japan'',
           ''Disprin'', ''SPAN'', ''panadeine'', ''Pantop'']\<rparr>))
       = [''Panadol'', ''Panadol Extra'', ''Japan'', ''SPAN'', ''panadeine'']
   \<and> length (suggestions (update_suggestions ascii_lower ''pAn''
        (AutoComplete_init\<lparr>allMedicines := [''Panadol'', ''Brufen'', ''Panadol Extra'', ''Japan'',
           ''Disprin'', ''SPAN'', ''panadeine'', ''Pantop'']\<rparr>))) \<le> 5
   \<and> js_includes (ascii_lower ''SPAN'') (ascii_lower ''pAn'')"
proof -
  have e: "suggestions (update_suggestions ascii_lower ''pAn''
        (AutoComplete_init\<lparr>allMedicines := [''Panadol'', ''Brufen'', ''Panadol Extra'', ''Japan'',
           ''Disprin'', ''SPAN'', ''panadeine'', ''Pantop'']\<rparr>))
       = [''Panadol'', ''Panadol Extra'', ''Japan'', ''SPAN'', ''panadeine'']"
    by code_simp
  have m: "''SPAN'' \<in> set (suggestions (update_suggestions ascii_lower ''pAn''
        (AutoComplete_init\<lparr>allMedicines := [''Panadol'', ''Brufen'', ''Panadol Extra'', ''Japan'',
           ''Disprin'', ''SPAN'', ''panadeine'', ''Pantop'']\<rparr>)))"
    unfolding e by simp
  have n: "''pAn'' \<noteq> []" by simp
  note t = suggestions_bounded
    [where toLowerCase = ascii_lower and v = "''pAn''"
       and s = "AutoComplete_init\<lparr>allMedicines := [''Panadol'', ''Brufen'', ''Panadol Extra'',
           ''Japan'', ''Disprin'', ''SPAN'', ''panadeine'', ''Pantop'']\<rparr>",
     THEN conjunct2, THEN mp, OF n]
  note l = t [THEN conjunct1]
  note i = t [THEN conjunct2, THEN bspec, OF m, THEN conjunct2, THEN conjunct1]
  from n e l i show ?thesis by (intro conjI)
qed

section \<open>Failure messages\<close>

text \<open>The scenario of the specification: a 404 with \<open>{message: "No match found"}\<close> becomes
  an error message with that text.\<close>

lemma not_found_scenario:
  "MessageBubble (reply (Rejected \<lparr>err_response = Some (Obj [''message'' \<mapsto> JStr ''No match found'']),
                                  err_message = Some (JStr ''Request failed with status code 404'')\<rparr>) 9)
   = [Content (Some (JStr ''No match found'')), Timestamp 9]"
  by (simp add: MessageBubble_def reply_def errorMessage_def err_field_def js_or_def)

text \<open>
  C3, as stated, at a failed image upload and a failed camera analysis with no HTTP
  response (a transport failure): the backend gave neither a message nor a suggestion,
  and what is shown is the error object's own message "Network Error", not the fixed
  fallback string.
\<close>

theorem failure_message_interposed_counterexample:
  "err_field \<lparr>err_response = None, err_message = Some (JStr ''Network Error'')\<rparr> ''message'' = None
   \<and> err_field \<lparr>err_response = None, err_message = Some (JStr ''Network Error'')\<rparr> ''suggestion''
       = None
   \<and> up_error (handleUpload_settled
         (Rejected \<lparr>err_response = None, err_message = Some (JStr ''Network Error'')\<rparr>)
         ImageUploader_init) = Some (JStr ''Network Error'')
   \<and> up_error (handleUpload_settled
         (Rejected \<lparr>err_response = None, err_message = Some (JStr ''Network Error'')\<rparr>)
         ImageUploader_init) \<noteq> Some (JStr ''Failed to process image. Please try again.'')
   \<and> cam_error (analyzeCapture_settled
         (Rejected \<lparr>err_response = None, err_message = Some (JStr ''Network Error'')\<rparr>)
         CameraCapture_init) = Some (JStr ''Network Error'')
   \<and> cam_error (analyzeCapture_settled
         (Rejected \<lparr>err_response = None, err_message = Some (JStr ''Network Error'')\<rparr>)
         CameraCapture_init) \<noteq> Some (JStr ''Failed to analyze image. Please try again.'')"
  by (simp add: err_field_def handleUpload_settled_def analyzeCapture_settled_def
      upload_errorMessage_def analyze_errorMessage_def js_or_def)

text \<open>
  C3, amended. A failed text submission appends an error message whose text is the
  backend's \<open>message\<close> field if that is truthy, else its \<open>suggestion\<close> field if that is
  truthy, else the fixed fallback string. A failed image upload or camera analysis shows
  \<open>message\<close>, else \<open>suggestion\<close>, else the error object's own \<open>message\<close> (each if truthy),
  else the fixed fallback string of that view.
\<close>

theorem failure_message_order:
  "messages (handleSubmit_settled (Rejected e) now s) = messages s @ [errorMessage e now]
   \<and> error (errorMessage e now)
   \<and> content (errorMessage e now)
       = (if truthy (err_field e ''message'') then err_field e ''message''
          else if truthy (err_field e ''suggestion'') then err_field e ''suggestion''
          else Some (JStr (''Sorry, I could not find information about that medicine. ''
                           @ ''Please check the spelling or try another name.'')))
   \<and> up_error (handleUpload_settled (Rejected e) u)
       = (if truthy (err_field e ''message'') then err_field e ''message''
          else if truthy (err_field e ''suggestion'') then err_field e ''suggestion''
          else if truthy (err_message e) then err_message e
          else Some (JStr ''Failed to process image. Please try again.''))
   \<and> cam_error (analyzeCapture_settled (Rejected e) c)
       = (if truthy (err_field e ''message'') then err_field e ''message''
          else if truthy (err_field e ''suggestion'') then err_field e ''suggestion''
          else if truthy (err_message e) then err_message e
          else Some (JStr ''Failed to analyze image. Please try again.''))"
  by (simp add: handleSubmit_settled_def reply_def errorMessage_def handleUpload_settled_def
      analyzeCapture_settled_def upload_errorMessage_def analyze_errorMessage_def js_or_def)

section \<open>Camera and microphone\<close>

lemma stopCamera_held:
  assumes "streamRef s = Some k" "k < length (tracks s)"
  shows "\<not> streaming (stopCamera s) \<and> released (stopCamera s) \<and> \<not> stream_live (stopCamera s)
         \<and> captured (stopCamera s) = captured s \<and> cam_loading (stopCamera s) = cam_loading s
         \<and> cam_result (stopCamera s) = cam_result s \<and> cam_error (stopCamera s) = cam_error s"
  using assms
  by (simp add: stopCamera_def released_def stream_live_def list_all_iff list_ex_iff)

lemma stopCamera_all:
  assumes "streamRef s = Some k" "k < length (tracks s)" "only_held_running s"
  shows "no_track_running (stopCamera s)"
proof -
  have "tracks (stopCamera s)
      = take k (tracks s) @ map (\<lambda>t. False) (tracks s ! k) # drop (Suc k) (tracks s)"
    using assms(1,2) by (simp add: stopCamera_def upd_conv_take_nth_drop)
  moreover have "list_all (list_all (\<lambda>t. \<not> t)) (take k (tracks s))"
    "list_all (list_all (\<lambda>t. \<not> t)) (drop (Suc k) (tracks s))"
    using assms(1,3) by (simp_all add: only_held_running_def)
  moreover have "list_all (\<lambda>t. \<not> t) (map (\<lambda>t. False) (tracks s ! k))"
    by (simp add: list_all_iff)
  ultimately show ?thesis by (simp add: no_track_running_def)
qed

text \<open>
  What \<open>stopCamera\<close> and \<open>captureImage\<close> do from the Streaming state (the \<open>streaming\<close> flag
  set, no captured frame, a granted stream with a running track held in \<open>streamRef\<close>),
  whatever the value of \<open>loading\<close>: the component is Idle, resp. holds the frame, and every
  track of the held stream is stopped. No track at all is running afterwards when the
  held stream was the only one with a running track.
\<close>

lemma stopCamera_from_streaming:
  assumes "Streaming s"
  shows "Idle (stopCamera (s\<lparr>cam_loading := b\<rparr>))
         \<and> released (stopCamera (s\<lparr>cam_loading := b\<rparr>))
         \<and> \<not> stream_live (stopCamera (s\<lparr>cam_loading := b\<rparr>))
         \<and> (only_held_running s \<longrightarrow> no_track_running (stopCamera (s\<lparr>cam_loading := b\<rparr>)))
         \<and> (\<exists>s'. captureImage img (s\<lparr>cam_loading := b\<rparr>) = Inr s' \<and> captured s' = Some img
                 \<and> \<not> streaming s' \<and> released s' \<and> \<not> stream_live s'
                 \<and> (only_held_running s \<longrightarrow> no_track_running s'))"
proof -
  from assms obtain k where k: "streamRef s = Some k" "k < length (tracks s)"
    and st: "streaming s" and cap: "captured s = None"
    by (auto simp: Streaming_def stream_live_def split: option.splits)
  from k have 1: "streamRef (s\<lparr>cam_loading := b\<rparr>) = Some k"
    "k < length (tracks (s\<lparr>cam_loading := b\<rparr>))" by simp_all
  from k have 2: "streamRef (s\<lparr>cam_loading := b, captured := Some img\<rparr>) = Some k"
    "k < length (tracks (s\<lparr>cam_loading := b, captured := Some img\<rparr>))" by simp_all
  have c: "captureImage img (s\<lparr>cam_loading := b\<rparr>)
      = Inr (stopCamera (s\<lparr>cam_loading := b, captured := Some img\<rparr>))"
    using st by (simp add: captureImage_def)
  have o1: "only_held_running (s\<lparr>cam_loading := b\<rparr>)"
    and o2: "only_held_running (s\<lparr>cam_loading := b, captured := Some img\<rparr>)"
    if "only_held_running s"
    using that k(1) by (simp_all add: only_held_running_def)
  have a1: "no_track_running (stopCamera (s\<lparr>cam_loading := b\<rparr>))" if "only_held_running s"
    using stopCamera_all [OF 1 o1 [OF that]] .
  have a2: "no_track_running (stopCamera (s\<lparr>cam_loading := b, captured := Some img\<rparr>))"
    if "only_held_running s"
    using stopCamera_all [OF 2 o2 [OF that]] .
  show ?thesis
    using stopCamera_held [OF 1] stopCamera_held [OF 2] cap c a1 a2 by (simp add: Idle_def)
qed

text \<open>
  A stream granted after Stop was pressed while the request was under way is stored in
  \<open>streamRef\<close> but never stopped. Start, grant, Stop, Start again, Stop before the grant
  (which finds the first, stopped stream in \<open>streamRef\<close>), grant: the component is Idle
  and the second stream has a running track.
\<close>

lemma stop_while_requesting:
  "Idle (startCamera_granted 1 (stopCamera (fst (startCamera
      (stopCamera (startCamera_granted 1 (fst (startCamera CameraCapture_init))))))))
   \<and> tracks (startCamera_granted 1 (stopCamera (fst (startCamera
      (stopCamera (startCamera_granted 1 (fst (startCamera CameraCapture_init))))))))
      = [[False], [True]]"
  by (simp add: Idle_def startCamera_granted_def stopCamera_def startCamera_def
      CameraCapture_init_def)

text \<open>
  C7. From the Streaming state, the stop action is claimed to end in the Idle state with
  the camera released. The code is evaluated here at Start, grant, Stop, Start, Stop
  before the grant, grant, Start, grant, which is a Streaming state: Stop leads to Idle
  and stops the stream held in \<open>streamRef\<close>, but the stream that was granted after the
  second Stop was never stopped, and its track is still running.
\<close>

theorem stop_leaves_stream_running:
  "Streaming
      (startCamera_granted 1 (fst (startCamera
        (startCamera_granted 1 (stopCamera (fst (startCamera
          (stopCamera (startCamera_granted 1 (fst (startCamera CameraCapture_init)))))))))))
   \<and> Idle (stopCamera
      (startCamera_granted 1 (fst (startCamera
        (startCamera_granted 1 (stopCamera (fst (startCamera
          (stopCamera (startCamera_granted 1 (fst (startCamera CameraCapture_init))))))))))))
   \<and> tracks (stopCamera
      (startCamera_granted 1 (fst (startCamera
        (startCamera_granted 1 (stopCamera (fst (startCamera
          (stopCamera (startCamera_granted 1 (fst (startCamera CameraCapture_init))))))))))))
       = [[False], [True], [False]]
   \<and> \<not> no_track_running (stopCamera
      (startCamera_granted 1 (fst (startCamera
        (startCamera_granted 1 (stopCamera (fst (startCamera
          (stopCamera (startCamera_granted 1 (fst (startCamera CameraCapture_init))))))))))))"
  by (simp add: Streaming_def Idle_def stream_live_def no_track_running_def
      startCamera_granted_def stopCamera_def startCamera_def CameraCapture_init_def)

text \<open>
  C8, as stated, at a browser without speech recognition: after \<open>startListening\<close> the
  component renders nothing, so the control is gone, nothing is shown in its place, and
  it stays gone even if the capability were there at a later call.
\<close>

theorem voice_unsupported_counterexample:
  "VoiceInput VoiceInput_init = [Button ''Voice input'' False]
   \<and> startListening False VoiceInput_init = (VoiceInput_init\<lparr>supported := False\<rparr>, [])
   \<and> VoiceInput (fst (startListening False VoiceInput_init)) = []
   \<and> VoiceInput (fst (startListening True (fst (startListening False VoiceInput_init)))) = []"
  by (simp add: VoiceInput_def VoiceInput_init_def startListening_def)

text \<open>
  C8, amended. A failed camera request (denied or unsupported) sets an inline error
  "Camera error: ..." that is rendered, leaves streaming, and leaves a control on the
  screen that starts the camera again (Start Camera, or Retake when a frame is held). A
  speech recognition error only resets \<open>listening\<close>: nothing is shown, and the button is
  enabled again while the component is still supported. Where speech recognition is
  unsupported, \<open>startListening\<close> clears \<open>supported\<close> and the component renders nothing.
\<close>

theorem capability_failure_handling:
  "cam_error (startCamera_failed msg c) = Some (JStr (''Camera error: '' @ msg))
   \<and> \<not> streaming (startCamera_failed msg c)
   \<and> ErrorBox (JStr (''Camera error: '' @ msg)) \<in> set (CameraCapture (startCamera_failed msg c))
   \<and> (Button ''Start Camera'' False \<in> set (CameraCapture (startCamera_failed msg c))
      \<or> Button ''Retake'' False \<in> set (CameraCapture (startCamera_failed msg c)))
   \<and> snd (startCamera (startCamera_failed msg c)) = [getUserMedia]
   \<and> snd (retake (startCamera_failed msg c)) = [getUserMedia]
   \<and> recognition onerror v = (v\<lparr>listening := False\<rparr>, [])
   \<and> VoiceInput (fst (recognition onerror v))
       = (if supported v then [Button ''Voice input'' False] else [])
   \<and> startListening False v = (v\<lparr>supported := False\<rparr>, [])
   \<and> VoiceInput (fst (startListening False v)) = []"
proof -
  have 1: "cam_error (startCamera_failed msg c) = Some (JStr (''Camera error: '' @ msg))"
    "\<not> streaming (startCamera_failed msg c)"
    by (simp_all add: startCamera_failed_def)
  have 2: "ErrorBox (JStr (''Camera error: '' @ msg)) \<in> set (CameraCapture (startCamera_failed msg c))"
    by (simp add: CameraCapture_def startCamera_failed_def)
  have 3: "Button ''Start Camera'' False \<in> set (CameraCapture (startCamera_failed msg c))
      \<or> Button ''Retake'' False \<in> set (CameraCapture (startCamera_failed msg c))"
    by (auto simp: CameraCapture_def startCamera_failed_def captured_shown_def
        split: option.splits)
  have 4: "snd (startCamera (startCamera_failed msg c)) = [getUserMedia]"
    "snd (retake (startCamera_failed msg c)) = [getUserMedia]"
    by (simp_all add: startCamera_def retake_def)
  have 5: "recognition onerror v = (v\<lparr>listening := False\<rparr>, [])"
    "VoiceInput (fst (recognition onerror v))
       = (if supported v then [Button ''Voice input'' False] else [])"
    "startListening False v = (v\<lparr>supported := False\<rparr>, [])"
    "VoiceInput (fst (startListening False v)) = []"
    by (simp_all add: VoiceInput_def startListening_def)
  from 1 2 3 4 5 show ?thesis by blast
qed

section \<open>Sessions\<close>

text \<open>
  \<open>Sidebar\<close> by itself: when its prop \<open>currentChatId\<close> is the id deleted (and \<open>onNewChat\<close>
  is \<open>App\<close>'s \<open>handleNewChat\<close>), the click removes every entry with that id from the
  history, writes the new history to local storage, and brings up a fresh chat: the hero
  is shown on the chat tab, no message log is on the screen, and the \<open>ChatBox\<close> that
  "Start Chatting" then mounts is in its initial, empty state.
\<close>

lemma Sidebar_delete_current:
  assumes "currentChatId = chatId"
  shows "chatHistory (delete_click currentChatId handleNewChat chatId p)
           = filter (\<lambda>c. chat_id c \<noteq> chatId) (chatHistory p)
         \<and> chatId \<notin> chat_id ` set (chatHistory (delete_click currentChatId handleNewChat chatId p))
         \<and> localStorage (delete_click currentChatId handleNewChat chatId p)
             = Some (chatHistory (delete_click currentChatId handleNewChat chatId p))
         \<and> showHero (delete_click currentChatId handleNewChat chatId p)
         \<and> activeTab (delete_click currentChatId handleNewChat chatId p) = chat_tab
         \<and> chatBox (delete_click currentChatId handleNewChat chatId p) = None
         \<and> shown_messages (delete_click currentChatId handleNewChat chatId p) = []
         \<and> chatBox (start_chat_click (delete_click currentChatId handleNewChat chatId p))
             = Some ChatBox_init"
proof -
  have d: "delete_click currentChatId handleNewChat chatId p
      = p\<lparr>chatHistory := filter (\<lambda>c. chat_id c \<noteq> chatId) (chatHistory p),
          showHero := True, activeTab := chat_tab, chatResetTrigger := chatResetTrigger p + 1,
          localStorage := Some (filter (\<lambda>c. chat_id c \<noteq> chatId) (chatHistory p)),
          chatBox := None\<rparr>"
    using assms
    by (simp add: delete_click_def handleDeleteChat_def handleNewChat_def save_effect_def
        rerender_def Let_def)
  show ?thesis
    unfolding d
    by (auto simp: shown_messages_def start_chat_click_def handleStartChat_def rerender_def
        reset_effect_def ChatBox_init_def)
qed

text \<open>As \<open>App\<close> wires \<open>Sidebar\<close>, a deleted entry that has an id is never the current
  one: the entry goes from the history and from storage, the rest of the page stays.\<close>

lemma App_delete_keeps_session:
  "App_delete_click (Some i) p
     = p\<lparr>chatHistory := filter (\<lambda>c. chat_id c \<noteq> Some i) (chatHistory p),
        localStorage := Some (filter (\<lambda>c. chat_id c \<noteq> Some i) (chatHistory p)),
        chatBox := (if \<not> showHero p \<and> activeTab p = chat_tab
                    then Some (case chatBox p of None \<Rightarrow> reset_effect (chatResetTrigger p) ChatBox_init
                               | Some c \<Rightarrow> c)
                    else None)\<rparr>"
  by (cases "chatBox p")
    (simp_all add: App_delete_click_def delete_click_def handleDeleteChat_def save_effect_def
      rerender_def Let_def)


section \<open>Stale output\<close>

text \<open>
  C10, as stated, at an upload that is under way when the next file is chosen: the
  answer (or the error) for the first file arrives after the second file was selected
  and is rendered under the preview of the second. Likewise the answer to an analysis
  that is under way at a retake is rendered under the restarted camera.
\<close>

theorem stale_result_counterexample:
  "snd (handleUpload (handleFileSelect (Some ''a.jpg'') ''blob:a'' ImageUploader_init))
     = [uploadImage ''a.jpg'']
   \<and> ImageUploader
        (handleUpload_settled (Resolved (Obj [''medicine_name'' \<mapsto> JStr ''Panadol'']))
          (handleFileSelect (Some ''b.jpg'') ''blob:b''
            (fst (handleUpload (handleFileSelect (Some ''a.jpg'') ''blob:a'' ImageUploader_init)))))
     = [Preview ''blob:b'', Button ''Analyze Image'' False, Heading (Some (JStr ''Panadol''))]
   \<and> ImageUploader
        (handleUpload_settled
          (Rejected \<lparr>err_response = None, err_message = Some (JStr ''Network Error'')\<rparr>)
          (handleFileSelect (Some ''b.jpg'') ''blob:b''
            (fst (handleUpload (handleFileSelect (Some ''a.jpg'') ''blob:a'' ImageUploader_init)))))
     = [Preview ''blob:b'', Button ''Analyze Image'' False, ErrorBox (JStr ''Network Error'')]
   \<and> CameraCapture
        (analyzeCapture_settled (Resolved (Obj [''medicine_name'' \<mapsto> JStr ''Panadol'']))
          (fst (retake (fst (analyzeCapture
            (CameraCapture_init\<lparr>captured := Some ''data:image/jpeg;base64,AAAA''\<rparr>))))))
     = [Video, Button ''Capture Photo'' False, Button ''Stop'' False,
        DebugBox ''Requesting camera access...'', Heading (Some (JStr ''Panadol''))]"
  by (simp add: handleUpload_def handleFileSelect_def ImageUploader_init_def ImageUploader_def
      handleUpload_settled_def result_panel_def ImageUploader_result_def upload_errorMessage_def
      err_field_def js_or_def CameraCapture_def CameraCapture_init_def analyzeCapture_def
      analyzeCapture_settled_def retake_def startCamera_def captured_shown_def
      CameraCapture_result_def)

text \<open>
  C10, amended. Selecting a file clears \<open>result\<close> and \<open>error\<close> and sets the new preview, so
  the render right after it shows the preview and neither a result nor an error; closing
  the dialog without a file changes nothing. Retake clears the captured frame, the result
  and the error and restarts the camera, so the render right after it shows the camera
  and neither a result nor an error. A request that is under way at that moment is not
  cancelled: when it settles, its result or its error message is stored and shown.
\<close>

theorem stale_output_reset:
  "up_result (handleFileSelect (Some f) url s) = None
   \<and> up_error (handleFileSelect (Some f) url s) = None
   \<and> selectedFile (handleFileSelect (Some f) url s) = Some f
   \<and> preview (handleFileSelect (Some f) url s) = Some url
   \<and> ImageUploader (handleFileSelect (Some f) url s)
       = (if url \<noteq> []
          then [Preview url,
                Button (if up_loading s then ''Processing...'' else ''Analyze Image'') (up_loading s)]
          else [])
   \<and> handleFileSelect None url s = s
   \<and> captured (fst (retake c)) = None
   \<and> cam_result (fst (retake c)) = None
   \<and> cam_error (fst (retake c)) = None
   \<and> streaming (fst (retake c))
   \<and> snd (retake c) = [getUserMedia]
   \<and> CameraCapture (fst (retake c))
       = [Video, Button ''Capture Photo'' False, Button ''Stop'' False,
          DebugBox ''Requesting camera access...'']
   \<and> up_result (handleUpload_settled (Resolved r) (handleFileSelect (Some f) url s)) = Some r
   \<and> cam_result (analyzeCapture_settled (Resolved r) (fst (retake c))) = Some r
   \<and> up_error (handleUpload_settled (Rejected e) (handleFileSelect (Some f) url s))
       = upload_errorMessage e
   \<and> cam_error (analyzeCapture_settled (Rejected e) (fst (retake c)))
       = analyze_errorMessage e"
  by (simp add: handleFileSelect_def ImageUploader_def result_panel_def retake_def
      startCamera_def CameraCapture_def captured_shown_def handleUpload_settled_def
      analyzeCapture_settled_def)

end
